theory Spec2Isabelle
  imports Main
begin

section \<open>Scorecard generator: the JavaScript primitives the code relies on\<close>

text \<open>
  The program is one Google Apps Script file, \<^verbatim>\<open>scorecard-generator.js\<close>. Its strings are
  modelled as \<^typ>\<open>string\<close>; a \<^typ>\<open>char\<close> stands for one UTF-16 code unit below 256.
  A JavaScript number is a double; the model computes with unbounded integers, which is
  exact as long as every number that occurs is an integer of magnitude at most \<open>2^53\<close>
  (a longer run of digits is rounded by the host, which the model does not follow; the
  theorems that speak of ages ask for ages within that range). The value NaN and the
  value \<^verbatim>\<open>undefined\<close> are \<^const>\<open>None\<close> of an option type.
\<close>

subsection \<open>Characters and strings\<close>

definition isWhiteSpace :: "char \<Rightarrow> bool" where
  \<comment> \<open>WhiteSpace and LineTerminator of ECMAScript, as far as they lie below 256:
      TAB, LF, VT, FF, CR, SP and NBSP.\<close>
  "isWhiteSpace c = (of_char c \<in> {9, 10, 11, 12, 13, 32, 160 :: nat})"

definition trim :: "string \<Rightarrow> string" where
  \<comment> \<open>\<^verbatim>\<open>String.prototype.trim\<close>\<close>
  "trim s = rev (dropWhile isWhiteSpace (rev (dropWhile isWhiteSpace s)))"

definition isDigit :: "char \<Rightarrow> bool" where
  \<comment> \<open>the regular expression class \<^verbatim>\<open>\d\<close> (no unicode flag): 0 to 9\<close>
  "isDigit c = (48 \<le> (of_char c :: nat) \<and> (of_char c :: nat) \<le> 57)"

definition matchDigits :: "string \<Rightarrow> string option" where
  \<comment> \<open>\<^verbatim>\<open>s.match(/\d+/)\<close>: the leftmost, longest run of digits (element 0 of the match), or
      \<^verbatim>\<open>null\<close>\<close>
  "matchDigits s =
     (let r = dropWhile (\<lambda>c. \<not> isDigit c) s
      in if r = [] then None else Some (takeWhile isDigit r))"

definition endsWith :: "string \<Rightarrow> string \<Rightarrow> bool" where
  \<comment> \<open>\<^verbatim>\<open>s.endsWith(suffix)\<close>\<close>
  "endsWith s suffix =
     (length suffix \<le> length s \<and> drop (length s - length suffix) s = suffix)"

fun includes_str :: "string \<Rightarrow> string \<Rightarrow> bool" where
  \<comment> \<open>\<^verbatim>\<open>s.includes(sub)\<close>\<close>
  "includes_str [] sub = (sub = [])"
| "includes_str (c # cs) sub = (take (length sub) (c # cs) = sub \<or> includes_str cs sub)"

fun split_str :: "char \<Rightarrow> string \<Rightarrow> string list" where
  \<comment> \<open>\<^verbatim>\<open>s.split(d)\<close> for a one-character separator: never the empty list\<close>
  "split_str d [] = [[]]"
| "split_str d (c # cs) =
     (if c = d then [] # split_str d cs
      else (case split_str d cs of [] \<Rightarrow> [[c]] | w # ws \<Rightarrow> (c # w) # ws))"

definition toLowerCase_char :: "char \<Rightarrow> char" where
  \<comment> \<open>A to Z, and the Latin-1 capitals 192 to 222 but for the multiplication sign 215\<close>
  "toLowerCase_char c =
     (let n = of_char c :: nat
      in if (65 \<le> n \<and> n \<le> 90) \<or> (192 \<le> n \<and> n \<le> 222 \<and> n \<noteq> 215)
         then char_of (n + 32) else c)"

definition toLowerCase :: "string \<Rightarrow> string" where
  "toLowerCase s = map toLowerCase_char s"

subsection \<open>Numbers\<close>

definition radixDigit :: "nat \<Rightarrow> char \<Rightarrow> nat option" where
  \<comment> \<open>the value of a digit of the given radix; letters count from 10, in either case\<close>
  "radixDigit radix c =
     (let n = of_char c :: nat;
          d = (if 48 \<le> n \<and> n \<le> 57 then Some (n - 48)
               else if 97 \<le> n \<and> n \<le> 122 then Some (n - 87)
               else if 65 \<le> n \<and> n \<le> 90 then Some (n - 55)
               else None)
      in case d of None \<Rightarrow> None | Some v \<Rightarrow> if v < radix then Some v else None)"

fun scanDigits :: "nat \<Rightarrow> string \<Rightarrow> nat list" where
  \<comment> \<open>the values of the longest prefix made of digits of the radix\<close>
  "scanDigits radix [] = []"
| "scanDigits radix (c # cs) =
     (case radixDigit radix c of None \<Rightarrow> [] | Some d \<Rightarrow> d # scanDigits radix cs)"

definition fromDigits :: "nat \<Rightarrow> nat list \<Rightarrow> nat" where
  "fromDigits radix ds = foldl (\<lambda>a d. a * radix + d) 0 ds"

definition parseInt :: "string \<Rightarrow> int option" where
  \<comment> \<open>\<^verbatim>\<open>parseInt(s)\<close> with no radix argument: leading white space is skipped, one sign is
      read, the prefix 0x or 0X selects radix 16, and the longest prefix of digits is the
      value; \<^const>\<open>None\<close> is NaN (no digit).\<close>
  "parseInt str =
     (let s = dropWhile isWhiteSpace str;
          sign = (case s of c # _ \<Rightarrow> if c = CHR ''-'' then - 1 else 1 | [] \<Rightarrow> (1 :: int));
          s1 = (case s of c # r \<Rightarrow> if c = CHR ''-'' \<or> c = CHR ''+'' then r else s | [] \<Rightarrow> s);
          hex = (case s1 of a # b # _ \<Rightarrow> a = CHR ''0'' \<and> (b = CHR ''x'' \<or> b = CHR ''X'')
                 | _ \<Rightarrow> False);
          radix = (if hex then 16 else 10);
          ds = scanDigits radix (if hex then drop 2 s1 else s1)
      in if ds = [] then None else Some (sign * int (fromDigits radix ds)))"

definition orNumber :: "int option \<Rightarrow> int \<Rightarrow> int" where
  \<comment> \<open>\<^verbatim>\<open>x || d\<close> for a number or \<^verbatim>\<open>undefined\<close> \<open>x\<close>: \<^verbatim>\<open>undefined\<close>, NaN and 0 are falsy\<close>
  "orNumber x d = (case x of None \<Rightarrow> d | Some n \<Rightarrow> if n = 0 then d else n)"

section \<open>The category comparator\<close>

record genderAge =
  gender :: string
  age :: int

definition charAt0 :: "string \<Rightarrow> string" where
  \<comment> \<open>\<^verbatim>\<open>cat.charAt(0)\<close>: the empty string on the empty string\<close>
  "charAt0 s = take 1 s"

definition getGenderAge :: "string \<Rightarrow> genderAge" where
  "getGenderAge cat = \<lparr> gender = charAt0 cat, age = orNumber (parseInt (drop 1 cat)) 0 \<rparr>"

definition genderOrder :: "string \<Rightarrow> int option" where
  \<comment> \<open>the object literal \<^verbatim>\<open>{ 'F': 0, 'M': 1, 'U': 2 }\<close>, read at a key of at most one
      character\<close>
  "genderOrder g =
     (if g = ''F'' then Some 0 else if g = ''M'' then Some 1
      else if g = ''U'' then Some 2 else None)"

definition genderRank :: "string \<Rightarrow> int" where
  \<comment> \<open>\<^verbatim>\<open>genderOrder[x.gender] || 3\<close>\<close>
  "genderRank cat = orNumber (genderOrder (gender (getGenderAge cat))) 3"

definition tableRank :: "string \<Rightarrow> int" where
  \<comment> \<open>the rank the table gives a gender code, and 3 for a code that is not in it\<close>
  "tableRank g = (case genderOrder g of None \<Rightarrow> 3 | Some r \<Rightarrow> r)"

definition compareCategoriesRedpoint :: "string \<Rightarrow> string \<Rightarrow> int" where
  "compareCategoriesRedpoint catA catB =
     (let a = getGenderAge catA;
          b = getGenderAge catB;
          genderCompare = orNumber (genderOrder (gender a)) 3 - orNumber (genderOrder (gender b)) 3
      in if genderCompare \<noteq> 0 then genderCompare else age a - age b)"

section \<open>Spreadsheet cells\<close>

text \<open>
  A cell value read from a sheet is a string, a number or a boolean; the empty cell is
  the empty string. A number is an integer of magnitude below \<open>10^21\<close>, which prints as
  its decimal digits. (Dates, fractional numbers and numbers printed in exponent
  notation are left out of the model.)
\<close>

datatype cell = Text string | Number int | Boolean bool

fun digitsOf :: "nat \<Rightarrow> string" where
  "digitsOf n =
     (if n < 10 then [char_of (48 + n)] else digitsOf (n div 10) @ [char_of (48 + n mod 10)])"

declare digitsOf.simps [simp del]

definition showInt :: "int \<Rightarrow> string" where
  \<comment> \<open>the decimal text of an integer, as \<^verbatim>\<open>String(n)\<close> gives it\<close>
  "showInt n = (if n < 0 then CHR ''-'' # digitsOf (nat (- n)) else digitsOf (nat n))"

definition toString :: "cell \<Rightarrow> string" where
  \<comment> \<open>\<^verbatim>\<open>v.toString()\<close>, and the conversion a template literal applies\<close>
  "toString v =
     (case v of Text s \<Rightarrow> s | Number n \<Rightarrow> showInt n
      | Boolean b \<Rightarrow> (if b then ''true'' else ''false''))"

definition truthy :: "cell \<Rightarrow> bool" where
  \<comment> \<open>what \<^verbatim>\<open>if (v)\<close>, \<^verbatim>\<open>!v\<close> and \<^verbatim>\<open>v || d\<close> test\<close>
  "truthy v = (case v of Text s \<Rightarrow> s \<noteq> [] | Number n \<Rightarrow> n \<noteq> 0 | Boolean b \<Rightarrow> b)"

definition falsy :: "cell \<Rightarrow> bool" where
  \<comment> \<open>\<^verbatim>\<open>!v\<close>\<close>
  "falsy v = (\<not> truthy v)"

definition isText :: "cell \<Rightarrow> bool" where
  \<comment> \<open>\<^verbatim>\<open>typeof v === 'string'\<close>\<close>
  "isText v = (case v of Text s \<Rightarrow> True | _ \<Rightarrow> False)"

definition cellAt :: "cell list \<Rightarrow> int \<Rightarrow> cell" where
  \<comment> \<open>\<^verbatim>\<open>row[i] || ''\<close>: an index outside the row (also \<open>-1\<close>) reads \<^verbatim>\<open>undefined\<close>\<close>
  "cellAt row i =
     (if 0 \<le> i \<and> i < int (length row)
      then (let v = row ! nat i in if truthy v then v else Text [])
      else Text [])"

fun indexOf :: "cell list \<Rightarrow> cell \<Rightarrow> int" where
  \<comment> \<open>\<^verbatim>\<open>row.indexOf(x)\<close>: the first position of a strictly equal element, or \<open>-1\<close>\<close>
  "indexOf [] x = - 1"
| "indexOf (y # ys) x =
     (if y = x then 0 else (let i = indexOf ys x in if i < 0 then - 1 else i + 1))"

section \<open>Sorting\<close>

text \<open>
  \<^verbatim>\<open>Array.prototype.sort\<close> with a comparator is stable, and a comparator result NaN counts
  as 0. For a comparator that is a total preorder every stable sort returns the same
  array; the model is straight insertion: each element goes before the longest suffix of
  the sorted part whose elements it precedes. Where the comparator yields NaN for some
  pairs and a number for others the order is the host's own; the model agrees with it
  when no element precedes its left neighbour (the host finds one ascending run and
  moves nothing), and is not meant to follow it otherwise.
\<close>

definition precedes :: "('a \<Rightarrow> 'a \<Rightarrow> int option) \<Rightarrow> 'a \<Rightarrow> 'a \<Rightarrow> bool" where
  "precedes cmp x y = (case cmp x y of None \<Rightarrow> False | Some v \<Rightarrow> v < 0)"

fun insertSorted :: "('a \<Rightarrow> 'a \<Rightarrow> int option) \<Rightarrow> 'a \<Rightarrow> 'a list \<Rightarrow> 'a list" where
  "insertSorted cmp x [] = [x]"
| "insertSorted cmp x (y # ys) =
     (if list_all (precedes cmp x) (y # ys) then x # y # ys else y # insertSorted cmp x ys)"

definition sortBy :: "('a \<Rightarrow> 'a \<Rightarrow> int option) \<Rightarrow> 'a list \<Rightarrow> 'a list" where
  "sortBy cmp xs = foldl (\<lambda>sorted x. insertSorted cmp x sorted) [] xs"

section \<open>The registration parser\<close>

record climber =
  firstname :: cell
  lastname :: cell
  name :: string
  bib :: cell
  category :: string
  session :: string

record skippedClimber =
  skip_name :: string
  skip_category :: "string option"
  skip_reason :: string

record parseResult =
  validClimbers :: "climber list"
  skippedClimbers :: "skippedClimber list"

definition splitRow :: "cell list \<Rightarrow> cell list" where
  \<comment> \<open>a row whose first cell is a string holding a semicolon is that string, split; the
      header and every data row are treated so, each on its own\<close>
  "splitRow r =
     (case r of
        Text s # _ \<Rightarrow> if CHR '';'' \<in> set s then map Text (split_str CHR '';'' s) else r
      | _ \<Rightarrow> r)"

definition isTicketHeader :: "cell \<Rightarrow> bool" where
  "isTicketHeader header =
     (truthy header \<and>
      (endsWith (toString header) '' boulder ticket'' \<or>
       endsWith (toString header) '' lead ticket'' \<or>
       endsWith (toString header) '' rope ticket'') \<and>
      \<not> includes_str (toString header) ''status'')"

definition ticketCategory :: "string \<Rightarrow> string" where
  \<comment> \<open>\<^verbatim>\<open>h.replace(/ (boulder|lead|rope) ticket$/, '')\<close>\<close>
  "ticketCategory h =
     (if endsWith h '' boulder ticket'' then take (length h - 15) h
      else if endsWith h '' lead ticket'' \<or> endsWith h '' rope ticket''
      then take (length h - 12) h
      else h)"

fun ticketColumnsFrom :: "int \<Rightarrow> cell list \<Rightarrow> (int \<times> string) list" where
  \<comment> \<open>the \<^verbatim>\<open>forEach\<close> over the header: the pairs of column index and category\<close>
  "ticketColumnsFrom idx [] = []"
| "ticketColumnsFrom idx (header # rest) =
     (if isTicketHeader header then [(idx, ticketCategory (toString header))] else [])
     @ ticketColumnsFrom (idx + 1) rest"

definition sessionOf :: "cell \<Rightarrow> string" where
  \<comment> \<open>\<^verbatim>\<open>sessionMatch ? sessionMatch[0] : ticketValue.toString()\<close>\<close>
  "sessionOf ticketValue =
     (case matchDigits (toString ticketValue) of
        Some m \<Rightarrow> m
      | None \<Rightarrow> toString ticketValue)"

fun ticketLoop ::
  "cell list \<Rightarrow> cell \<Rightarrow> cell \<Rightarrow> cell \<Rightarrow> string \<Rightarrow> (int \<times> string) list \<Rightarrow> parseResult
   \<Rightarrow> parseResult \<times> bool" where
  \<comment> \<open>the loop over the ticket columns of one row; the boolean is \<^verbatim>\<open>foundRegistration\<close>\<close>
  "ticketLoop row firstname' lastname' bib' climberName [] acc = (acc, False)"
| "ticketLoop row firstname' lastname' bib' climberName ((idx, cat) # tickets) acc =
     (let ticketValue = cellAt row idx
      in if truthy ticketValue \<and> trim (toString ticketValue) \<noteq> []
         then (let session = sessionOf ticketValue
               in if session = [] \<or> trim session = []
                  then (acc\<lparr> skippedClimbers := skippedClimbers acc @
                          [\<lparr> skip_name = climberName, skip_category = Some cat,
                             skip_reason = ''No session information found'' \<rparr>] \<rparr>, True)
                  else (acc\<lparr> validClimbers := validClimbers acc @
                          [\<lparr> firstname = firstname', lastname = lastname', name = climberName,
                             bib = bib', category = cat, session = session \<rparr>] \<rparr>, True))
         else ticketLoop row firstname' lastname' bib' climberName tickets acc)"

definition processRow ::
  "int \<Rightarrow> int \<Rightarrow> int \<Rightarrow> (int \<times> string) list \<Rightarrow> cell list \<Rightarrow> parseResult \<Rightarrow> parseResult" where
  \<comment> \<open>the body of the loop over the data rows\<close>
  "processRow firstnameIdx lastnameIdx bibIdx ticketColumns dataRow acc =
     (let row = splitRow dataRow;
          firstname' = cellAt row firstnameIdx;
          lastname' = cellAt row lastnameIdx;
          bib' = cellAt row bibIdx
      in if falsy firstname' \<and> falsy lastname' then acc
         else (let climberName = trim (toString firstname' @ '' '' @ toString lastname');
                   (acc', foundRegistration) =
                     ticketLoop row firstname' lastname' bib' climberName ticketColumns acc
               in if \<not> foundRegistration \<and> climberName \<noteq> []
                  then acc'\<lparr> skippedClimbers := skippedClimbers acc' @
                         [\<lparr> skip_name = climberName, skip_category = None,
                            skip_reason = ''No registration/ticket information found'' \<rparr>] \<rparr>
                  else acc'))"

definition compareClimbers ::
  "(string \<Rightarrow> string \<Rightarrow> int) \<Rightarrow> climber \<Rightarrow> climber \<Rightarrow> int option" where
  \<comment> \<open>the comparator of the final sort. \<open>localeCompare\<close> is the host's collation of two
      strings, a parameter of the model; last names are text (on a last name that is not
      a string the host has no such method).\<close>
  "compareClimbers localeCompare a b =
     (let sessionA = orNumber (parseInt (session a)) 0;
          sessionB = orNumber (parseInt (session b)) 0
      in if sessionA \<noteq> sessionB then Some (sessionA - sessionB)
         else (let catCompare = compareCategoriesRedpoint (category a) (category b)
               in if catCompare \<noteq> 0 then Some catCompare
                  else Some (localeCompare (toString (lastname a)) (toString (lastname b)))))"

definition parseClimberData :: "(string \<Rightarrow> string \<Rightarrow> int) \<Rightarrow> cell list list \<Rightarrow> parseResult" where
  \<comment> \<open>\<open>data\<close> is \<^verbatim>\<open>sheet.getDataRange().getValues()\<close>\<close>
  "parseClimberData localeCompare data =
     (case data of
        header # dataRow # dataRows \<Rightarrow>
          (let headerRow = splitRow header;
               firstnameIdx = indexOf headerRow (Text ''firstname'');
               lastnameIdx = indexOf headerRow (Text ''lastname'');
               bibIdx = indexOf headerRow (Text ''bib'');
               ticketColumns = ticketColumnsFrom 0 headerRow;
               parsed = foldl (\<lambda>acc r. processRow firstnameIdx lastnameIdx bibIdx ticketColumns r acc)
                          \<lparr> validClimbers = [], skippedClimbers = [] \<rparr> (dataRow # dataRows)
           in parsed\<lparr> validClimbers := sortBy (compareClimbers localeCompare) (validClimbers parsed) \<rparr>)
      | _ \<Rightarrow> \<lparr> validClimbers = [], skippedClimbers = [] \<rparr>)"

section \<open>The climb assignment parser\<close>

definition parseClimbAssignments :: "cell list list \<Rightarrow> (string \<rightharpoonup> string list)" where
  \<comment> \<open>\<open>data\<close> is the value grid of the sheet Climbs; row 0 is the header. A later row
      for a category overwrites an earlier one.\<close>
  "parseClimbAssignments data =
     foldl (\<lambda>assignments r.
              (let category' = cellAt r 0;
                   climbsStr = cellAt r 1
               in if falsy category' \<or> falsy climbsStr then assignments
                  else assignments(trim (toString category') \<mapsto>
                         map trim (split_str CHR '','' (toString climbsStr)))))
       Map.empty (drop 1 data)"

section \<open>The scorecard layout engine\<close>

text \<open>
  The output sheet is a rendering surface: the model records, in order, the calls that
  place content or change the geometry of the sheet, and takes every call with a row and
  a column that are numbers to succeed, so the \<^verbatim>\<open>catch\<close> branch of the loop over the
  climbers is not entered. Calls that only style a range (font, colour, alignment,
  border, wrap) are left out.
\<close>

datatype sheetOp =
    InsertRowsAfter int int
  | InsertColumnsAfter int int
  | SetValue int int cell
  | MergeAcross int int int
  | SetRowHeight int int
  | SetHiddenGridlines bool

text \<open>
  \<^term>\<open>SetValue r c v\<close> is \<^verbatim>\<open>getRange(r, c).setValue(v)\<close>, also on the first cell of a
  merged range; \<^term>\<open>MergeAcross r c n\<close> is \<^verbatim>\<open>getRange(r, c, 1, n).merge()\<close>.
\<close>

record sheet =
  maxRows :: int
  maxColumns :: int
  written :: "sheetOp list"

definition MAX_ATTEMPTS :: int where
  "MAX_ATTEMPTS = 10"

definition CARD_WIDTH_COLS :: int where
  "CARD_WIDTH_COLS = 1 + MAX_ATTEMPTS"

definition STANDARD_ROW_HEIGHT :: int where
  "STANDARD_ROW_HEIGHT = 21"

subsection \<open>Reading the climbs of a category\<close>

text \<open>
  The climb assignments are a plain object used as a dictionary, so
  \<^verbatim>\<open>climbAssignments[climber.category]\<close> finds, for a key the table does not hold, what
  every object inherits from \<^verbatim>\<open>Object.prototype\<close>: eleven functions and the accessor
  \<^verbatim>\<open>__proto__\<close>, which yields \<^verbatim>\<open>Object.prototype\<close> itself. The map of the model holds the
  own properties of the object. (An own property \<^verbatim>\<open>__proto__\<close> cannot be made by
  assignment: a table row of that category replaces the prototype instead. The theorems
  on whole runs therefore ask for a table without that key.)
\<close>

datatype inherited = InheritedFunction nat | InheritedObject

definition objectPrototype :: "string \<Rightarrow> inherited option" where
  \<comment> \<open>the properties of \<^verbatim>\<open>Object.prototype\<close>; a function is known by its \<^verbatim>\<open>length\<close>, the
      number of its formal parameters\<close>
  "objectPrototype key =
     map_of
       [(''constructor'', InheritedFunction 1),
        (''hasOwnProperty'', InheritedFunction 1),
        (''isPrototypeOf'', InheritedFunction 1),
        (''propertyIsEnumerable'', InheritedFunction 1),
        (''toLocaleString'', InheritedFunction 0),
        (''toString'', InheritedFunction 0),
        (''valueOf'', InheritedFunction 0),
        (''__defineGetter__'', InheritedFunction 2),
        (''__defineSetter__'', InheritedFunction 2),
        (''__lookupGetter__'', InheritedFunction 1),
        (''__lookupSetter__'', InheritedFunction 1),
        (''__proto__'', InheritedObject)] key"

datatype climbsValue = Climbs "string list" | Inherited inherited

definition lookupClimbs :: "(string \<rightharpoonup> string list) \<Rightarrow> string \<Rightarrow> climbsValue" where
  \<comment> \<open>\<^verbatim>\<open>climbAssignments[climber.category] || []\<close>: arrays, functions and objects are all
      truthy, \<^verbatim>\<open>undefined\<close> is not\<close>
  "lookupClimbs climbAssignments key =
     (case climbAssignments key of
        Some climbs \<Rightarrow> Climbs climbs
      | None \<Rightarrow> (case objectPrototype key of Some v \<Rightarrow> Inherited v | None \<Rightarrow> Climbs []))"

definition lengthOf :: "climbsValue \<Rightarrow> int option" where
  \<comment> \<open>\<^verbatim>\<open>categoryClimbs.length\<close>; \<^const>\<open>None\<close> is \<^verbatim>\<open>undefined\<close>\<close>
  "lengthOf v =
     (case v of
        Climbs climbs \<Rightarrow> Some (int (length climbs))
      | Inherited (InheritedFunction n) \<Rightarrow> Some (int n)
      | Inherited InheritedObject \<Rightarrow> None)"

definition itemText :: "climbsValue \<Rightarrow> nat \<Rightarrow> string" where
  \<comment> \<open>\<^verbatim>\<open>categoryClimbs[climbIdx]\<close> as the template literal prints it; a function has no
      element, and \<^verbatim>\<open>undefined\<close> prints as that word\<close>
  "itemText v climbIdx =
     (case v of
        Climbs climbs \<Rightarrow> if climbIdx < length climbs then climbs ! climbIdx else ''undefined''
      | Inherited _ \<Rightarrow> ''undefined'')"

subsection \<open>The loop over the climbers\<close>

record layoutState =
  currentRow :: int
  successfulCards :: int
  layoutSkipped :: "skippedClimber list"
  cardOps :: "sheetOp list"
  cursorLost :: bool

text \<open>
  \<^const>\<open>layoutSkipped\<close> is the local array \<^verbatim>\<open>skippedClimbers\<close> of
  \<^verbatim>\<open>createRedpointScorecards\<close>, and \<^const>\<open>cardOps\<close> the calls made on the sheet so far.
  The configured counts \<open>numClimbs\<close> and \<open>numAttempts\<close> are integers, so that
  \<^verbatim>\<open>parseInt(numClimbs)\<close> is \<open>numClimbs\<close> itself.
  \<^const>\<open>cursorLost\<close> says that \<^verbatim>\<open>currentRow\<close> has become NaN. That happens in one way: the
  category of a climber is the key \<^verbatim>\<open>__proto__\<close>, the lookup yields an object without a
  \<^verbatim>\<open>length\<close>, and \<^verbatim>\<open>Math.min(undefined, numClimbs)\<close> is NaN. Every later call that names a
  row is then the host's to answer; the model follows the run up to the header of that
  card and, from there on, records only the skip reasons that need no call on the sheet.
\<close>

definition headerOps :: "cell \<Rightarrow> climber \<Rightarrow> int \<Rightarrow> sheetOp list" where
  \<comment> \<open>the header section of a card whose first row is \<open>competitionRow\<close>\<close>
  "headerOps eventName climber competitionRow =
     (let nameRow = competitionRow + 1;
          categoryRow = nameRow + 1
      in [SetValue competitionRow 1 (Text ''Competition:''),
          MergeAcross competitionRow 2 (CARD_WIDTH_COLS - 1),
          SetValue competitionRow 2 eventName,
          SetValue nameRow 1 (Text ''Name:''),
          MergeAcross nameRow 2 (CARD_WIDTH_COLS - 1),
          SetValue nameRow 2 (Text (name climber)),
          SetRowHeight nameRow (STANDARD_ROW_HEIGHT * 2),
          SetValue categoryRow 1 (Text ''Category:''),
          MergeAcross categoryRow 2 2,
          SetValue categoryRow 2 (Text (category climber)),
          SetValue categoryRow 4 (Text ''Session:''),
          MergeAcross categoryRow 5 2,
          SetValue categoryRow 5 (Text (session climber)),
          SetValue categoryRow 7 (Text ''Bib #:''),
          MergeAcross categoryRow 8 (CARD_WIDTH_COLS - 7),
          SetValue categoryRow 8 (bib climber),
          SetRowHeight categoryRow (STANDARD_ROW_HEIGHT * 2)])"

definition climbRow :: "string \<Rightarrow> int \<Rightarrow> int \<Rightarrow> string \<Rightarrow> sheetOp list" where
  \<comment> \<open>one pass of the loop over \<^verbatim>\<open>climbIdx\<close>: the label, the attempt markers from 1 while
      \<^verbatim>\<open>attemptNum <= numAttempts\<close>, the row height\<close>
  "climbRow climbPrefix numAttempts r climbNumber =
     SetValue r 1 (Text (climbPrefix @ '': '' @ climbNumber))
     # map (\<lambda>attemptNum. SetValue r (1 + attemptNum) (Number attemptNum)) [1..numAttempts]
     @ [SetRowHeight r (STANDARD_ROW_HEIGHT * 2)]"

definition layoutCard ::
  "(string \<rightharpoonup> string list) \<Rightarrow> cell \<Rightarrow> int \<Rightarrow> int \<Rightarrow> cell \<Rightarrow> string \<Rightarrow> int \<Rightarrow> climber
   \<Rightarrow> layoutState \<Rightarrow> layoutState" where
  \<comment> \<open>the body of the loop over the climbers; \<open>nClimbers\<close> is \<^verbatim>\<open>climbers.length\<close>\<close>
  "layoutCard climbAssignments eventName numClimbs numAttempts scoringNotes climbPrefix nClimbers
     climber st =
     (let isOddCard = (successfulCards st mod 2 = 0);
          categoryClimbs = lookupClimbs climbAssignments (category climber)
      in case lengthOf categoryClimbs of
           None \<Rightarrow>
             (if cursorLost st then st
              else st\<lparr> cardOps := cardOps st @ headerOps eventName climber (currentRow st),
                       cursorLost := True \<rparr>)
         | Some categoryClimbsLength \<Rightarrow>
         (let actualNumClimbs = min categoryClimbsLength numClimbs
          in if categoryClimbsLength = 0
             then st\<lparr> layoutSkipped := layoutSkipped st @
                       [\<lparr> skip_name = name climber, skip_category = Some (category climber),
                          skip_reason = ''No climbs assigned to category'' \<rparr>] \<rparr>
             else if cursorLost st then st
             else
          (let competitionRow = currentRow st;
               nameRow = competitionRow + 1;
               categoryRow = nameRow + 1;
               blankRow = categoryRow + 1;
               gridStartRow = blankRow + 1;
               gridOps =
                 concat (map (\<lambda>climbIdx. climbRow climbPrefix numAttempts
                                 (gridStartRow + int climbIdx) (itemText categoryClimbs climbIdx))
                           [0..<nat actualNumClimbs]);
               gridEndRow = gridStartRow + actualNumClimbs;
               gridRowsUsed = 1 + 2 + 2 + 1 + actualNumClimbs * 2;
               scoringRow = gridEndRow + 1;
               notesOps =
                 (if truthy scoringNotes
                  then [SetValue scoringRow 1 (Text ''Scoring:''),
                        MergeAcross scoringRow 2 (CARD_WIDTH_COLS - 1),
                        SetValue scoringRow 2 scoringNotes]
                  else []);
               contentEndRow = (if truthy scoringNotes then scoringRow + 1 else gridEndRow);
               rowsUsedCount = (if truthy scoringNotes then gridRowsUsed + 2 else gridRowsUsed);
               paddingNeeded = (if isOddCard then 33 else 34) - rowsUsedCount;
               paddedRow = (if paddingNeeded > 0 then contentEndRow + paddingNeeded
                            else contentEndRow);
               nextRow =
                 (if isOddCard then paddedRow + 1
                  else if successfulCards st < nClimbers - int (length (layoutSkipped st)) - 1
                  then paddedRow + 2
                  else paddedRow)
           in st\<lparr> currentRow := nextRow,
                  successfulCards := successfulCards st + 1,
                  cardOps := cardOps st @ headerOps eventName climber competitionRow
                               @ gridOps @ notesOps \<rparr>)))"

definition layoutLoop ::
  "(string \<rightharpoonup> string list) \<Rightarrow> cell \<Rightarrow> int \<Rightarrow> int \<Rightarrow> cell \<Rightarrow> string \<Rightarrow> int \<Rightarrow> climber list
   \<Rightarrow> layoutState \<Rightarrow> layoutState" where
  \<comment> \<open>the loop \<^verbatim>\<open>for (let i = 0; i < climbers.length; i++)\<close>, from any state\<close>
  "layoutLoop climbAssignments eventName numClimbs numAttempts scoringNotes climbPrefix nClimbers
     climbers st =
     foldl (\<lambda>s climber. layoutCard climbAssignments eventName numClimbs numAttempts scoringNotes
                           climbPrefix nClimbers climber s)
       st climbers"

definition climbPrefixOf :: "cell \<Rightarrow> string" where
  "climbPrefixOf eventType =
     (let eventTypeLower = trim (toLowerCase (toString eventType))
      in if eventTypeLower = ''rope'' then ''Climb'' else ''Boulder'')"

definition layoutAll ::
  "climber list \<Rightarrow> (string \<rightharpoonup> string list) \<Rightarrow> cell \<Rightarrow> int \<Rightarrow> int \<Rightarrow> cell \<Rightarrow> cell
   \<Rightarrow> layoutState" where
  \<comment> \<open>the whole loop of \<^verbatim>\<open>createRedpointScorecards\<close>, from row 1 and no card\<close>
  "layoutAll climbers climbAssignments eventName numClimbs numAttempts scoringNotes eventType =
     layoutLoop climbAssignments eventName numClimbs numAttempts scoringNotes
       (climbPrefixOf eventType) (int (length climbers)) climbers
       \<lparr> currentRow = 1, successfulCards = 0, layoutSkipped = [], cardOps = [],
         cursorLost = False \<rparr>"

definition createRedpointScorecards ::
  "sheet \<Rightarrow> climber list \<Rightarrow> (string \<rightharpoonup> string list) \<Rightarrow> cell \<Rightarrow> int \<Rightarrow> int \<Rightarrow> cell \<Rightarrow> cell
   \<Rightarrow> sheet \<times> skippedClimber list" where
  \<comment> \<open>returns the sheet as written and the array \<^verbatim>\<open>skippedClimbers\<close>\<close>
  "createRedpointScorecards sh climbers climbAssignments eventName numClimbs numAttempts
     scoringNotes eventType =
     (let totalRowsNeeded = 32 * int (length climbers) + 100;
          currentRows = maxRows sh;
          sh1 = (if totalRowsNeeded > currentRows
                 then sh\<lparr> maxRows := totalRowsNeeded,
                          written := written sh @
                            [InsertRowsAfter currentRows (totalRowsNeeded - currentRows)] \<rparr>
                 else sh);
          sh2 = (if maxColumns sh1 < CARD_WIDTH_COLS + 1
                 then sh1\<lparr> maxColumns := CARD_WIDTH_COLS + 1,
                           written := written sh1 @
                             [InsertColumnsAfter (maxColumns sh1)
                                ((CARD_WIDTH_COLS + 1) - maxColumns sh1)] \<rparr>
                 else sh1);
          final = layoutAll climbers climbAssignments eventName numClimbs numAttempts
                    scoringNotes eventType
      in (sh2\<lparr> written := written sh2 @ cardOps final \<rparr>, layoutSkipped final))"

subsection \<open>What a reader of the sheet sees\<close>

text \<open>
  A card begins at the cell of column 1 that reads ``Competition:''; the cell right of
  the next row's ``Name:'' holds the name of its climber. The climb rows are the cells
  of column 1 that hold the prefix, a colon, a blank and a climb identifier; the attempt
  markers of a row are the values placed right of column 1.
\<close>

definition cardStart :: "sheetOp \<Rightarrow> int list" where
  "cardStart op =
     (case op of
        SetValue r c (Text s) \<Rightarrow> if c = 1 \<and> s = ''Competition:'' then [r] else []
      | _ \<Rightarrow> [])"

definition cardStarts :: "sheetOp list \<Rightarrow> int list" where
  \<comment> \<open>the first rows of the cards, in the order in which they are laid out\<close>
  "cardStarts ops = concat (map cardStart ops)"

definition climbLabel :: "string \<Rightarrow> sheetOp \<Rightarrow> (int \<times> string) list" where
  "climbLabel climbPrefix op =
     (case op of
        SetValue r c (Text s) \<Rightarrow>
          if c = 1 \<and> take (length climbPrefix + 2) s = climbPrefix @ '': ''
          then [(r, drop (length climbPrefix + 2) s)] else []
      | _ \<Rightarrow> [])"

definition climbLabels :: "string \<Rightarrow> sheetOp list \<Rightarrow> (int \<times> string) list" where
  "climbLabels climbPrefix ops = concat (map (climbLabel climbPrefix) ops)"

definition attemptMarker :: "int \<Rightarrow> sheetOp \<Rightarrow> (int \<times> cell) list" where
  "attemptMarker r op =
     (case op of SetValue r' c v \<Rightarrow> if r' = r \<and> 1 < c then [(c, v)] else [] | _ \<Rightarrow> [])"

definition attemptMarkers :: "int \<Rightarrow> sheetOp list \<Rightarrow> (int \<times> cell) list" where
  "attemptMarkers r ops = concat (map (attemptMarker r) ops)"

section \<open>The check-in roster builder\<close>

text \<open>
  The workbook is known to the program by the names of its sheets. The model records the
  calls that delete or insert a sheet and the calls made on a named sheet. The groups are
  an object keyed by session token; a token is taken not to be the name of a property
  every JavaScript object inherits (on such a token the \<^verbatim>\<open>push\<close> fails, which the model
  does not follow).
\<close>

datatype bookOp =
    DeleteSheet string
  | InsertSheet string
  | OnSheet string sheetOp

definition pushToGroup :: "(string \<times> climber list) list \<Rightarrow> climber \<Rightarrow> (string \<times> climber list) list" where
  \<comment> \<open>\<^verbatim>\<open>if (!sessionGroups[session]) sessionGroups[session] = []; sessionGroups[session].push(climber)\<close>;
      the object \<^verbatim>\<open>sessionGroups\<close> is its list of properties in insertion order\<close>
  "pushToGroup sessionGroups climber =
     (if map_of sessionGroups (session climber) = None
      then sessionGroups @ [(session climber, [climber])]
      else map (\<lambda>(k, members). if k = session climber then (k, members @ [climber])
                                 else (k, members)) sessionGroups)"

definition groupBySession :: "climber list \<Rightarrow> (string \<times> climber list) list" where
  "groupBySession climbers = foldl pushToGroup [] climbers"

definition decimalValue :: "string \<Rightarrow> nat" where
  "decimalValue k = fromDigits 10 (scanDigits 10 k)"

definition isArrayIndex :: "string \<Rightarrow> bool" where
  \<comment> \<open>a property key that is the canonical decimal text of an integer below \<open>2^32 - 1\<close>\<close>
  "isArrayIndex k =
     (k \<noteq> [] \<and> list_all isDigit k \<and> (k = ''0'' \<or> take 1 k \<noteq> ''0'') \<and>
      int (decimalValue k) < 4294967295)"

definition objectKeys :: "(string \<times> 'v) list \<Rightarrow> string list" where
  \<comment> \<open>\<^verbatim>\<open>Object.keys\<close>: the array indices in ascending numeric order, then the other keys
      in insertion order\<close>
  "objectKeys props =
     sort_key decimalValue (filter isArrayIndex (map fst props))
     @ filter (\<lambda>k. \<not> isArrayIndex k) (map fst props)"

definition compareSessions :: "string \<Rightarrow> string \<Rightarrow> int option" where
  \<comment> \<open>\<^verbatim>\<open>(a, b) => parseInt(a) - parseInt(b)\<close>: NaN when either side is NaN\<close>
  "compareSessions a b =
     (case parseInt a of None \<Rightarrow> None
      | Some x \<Rightarrow> (case parseInt b of None \<Rightarrow> None | Some y \<Rightarrow> Some (x - y)))"

definition sessionsOf :: "climber list \<Rightarrow> string list" where
  \<comment> \<open>the array \<^verbatim>\<open>sessions\<close>: the order in which the roster sheets are made\<close>
  "sessionsOf climbers = sortBy compareSessions (objectKeys (groupBySession climbers))"

definition compareRoster :: "(string \<Rightarrow> string \<Rightarrow> int) \<Rightarrow> climber \<Rightarrow> climber \<Rightarrow> int option" where
  "compareRoster localeCompare a b =
     (let catCompare = compareCategoriesRedpoint (category a) (category b)
      in if catCompare \<noteq> 0 then Some catCompare
         else Some (localeCompare (toString (lastname a)) (toString (lastname b))))"

definition rosterOps :: "climber list \<Rightarrow> sheetOp list" where
  \<comment> \<open>the header row and one row for each climber, from row 2; column 5 stays blank\<close>
  "rosterOps sessionClimbers =
     [SetValue 1 1 (Text ''Name''), SetValue 1 2 (Text ''Category''),
      SetValue 1 3 (Text ''Session''), SetValue 1 4 (Text ''Bib #''),
      SetValue 1 5 (Text ''Checked In'')]
     @ concat (map (\<lambda>(index, climber).
                      [SetValue (int index + 2) 1 (Text (name climber)),
                       SetValue (int index + 2) 2 (Text (category climber)),
                       SetValue (int index + 2) 3 (Text (session climber)),
                       SetValue (int index + 2) 4 (bib climber)])
                 (enumerate 0 sessionClimbers))"

definition checkInSheetName :: "string \<Rightarrow> string" where
  "checkInSheetName s = ''Session '' @ s @ '' Check-in List''"

definition createCheckInList ::
  "(string \<Rightarrow> string \<Rightarrow> int) \<Rightarrow> (string \<times> climber list) list \<Rightarrow> string list \<times> bookOp list
   \<Rightarrow> string \<Rightarrow> string list \<times> bookOp list" where
  \<comment> \<open>one pass of \<^verbatim>\<open>sessions.forEach\<close>; the state is the sheet names of the workbook and
      the calls made so far\<close>
  "createCheckInList localeCompare sessionGroups st s =
     (let sheetName = checkInSheetName s;
          existing = fst st;
          deleted = (if sheetName \<in> set existing then [DeleteSheet sheetName] else []);
          sessionClimbers = sortBy (compareRoster localeCompare)
                              (case map_of sessionGroups s of None \<Rightarrow> [] | Some members \<Rightarrow> members)
      in (filter (\<lambda>n. n \<noteq> sheetName) existing @ [sheetName],
          snd st @ deleted @ [InsertSheet sheetName]
          @ map (OnSheet sheetName) (rosterOps sessionClimbers)))"

definition createCheckInLists ::
  "(string \<Rightarrow> string \<Rightarrow> int) \<Rightarrow> string list \<Rightarrow> climber list \<Rightarrow> string list \<times> bookOp list" where
  \<comment> \<open>\<open>existing\<close> are the sheet names of the workbook at the call\<close>
  "createCheckInLists localeCompare existing climbers =
     foldl (createCheckInList localeCompare (groupBySession climbers)) (existing, [])
       (sessionsOf climbers)"

definition insertedSheets :: "bookOp list \<Rightarrow> string list" where
  \<comment> \<open>the sheets a run makes, in the order it makes them\<close>
  "insertedSheets ops = concat (map (\<lambda>op. case op of InsertSheet n \<Rightarrow> [n] | _ \<Rightarrow> []) ops)"

section \<open>The orchestrator\<close>

record summaryValues =
  B1 :: cell
  B2 :: int
  B3 :: int
  B4 :: cell
  B5 :: cell

text \<open>
  The cells B1 to B5 of the sheet Summary. B2 and B3 hold numbers; a blank cell there is
  falsy like 0 and is written 0.
\<close>

record spreadsheet =
  summarySheet :: "summaryValues option"
  climbsSheet :: "cell list list option"
  registrationSheet :: "cell list list option"
  otherSheets :: "string list"

text \<open>
  \<^const>\<open>None\<close> is a sheet that \<^verbatim>\<open>getSheetByName\<close> does not find; \<^const>\<open>otherSheets\<close>
  are the names of the output sheets that exist before the run.
\<close>

definition skippedLine :: "skippedClimber \<Rightarrow> string" where
  "skippedLine skipped =
     [CHR 0x0A] @ ''- '' @ skip_name skipped @ '' (''
     @ (case skip_category skipped of None \<Rightarrow> ''Unknown''
        | Some c \<Rightarrow> if c = [] then ''Unknown'' else c)
     @ ''): '' @ skip_reason skipped"

definition successMessage :: "int \<Rightarrow> skippedClimber list \<Rightarrow> string" where
  "successMessage generated allSkipped =
     ''Success! Generated '' @ showInt generated
     @ '' scorecards in the \"Queue Cards\" sheet and check-in lists for each session.''
     @ (if length allSkipped > 0
        then [CHR 0x0A, CHR 0x0A] @ ''WARNING: '' @ showInt (int (length allSkipped))
             @ '' climber(s) were skipped due to errors:'' @ [CHR 0x0A]
             @ concat (map skippedLine allSkipped)
        else [])"

definition generateScorecards ::
  "(string \<Rightarrow> string \<Rightarrow> int) \<Rightarrow> int \<Rightarrow> int \<Rightarrow> spreadsheet \<Rightarrow> string \<times> bookOp list" where
  \<comment> \<open>returns the text of the one alert and the calls that change the workbook, in order.
      \<open>newRows\<close> and \<open>newColumns\<close> are the size the host gives a new sheet.\<close>
  "generateScorecards localeCompare newRows newColumns ss =
     (case summarySheet ss of
        None \<Rightarrow> (''Error: Could not find \"Summary\" sheet. Please create it first.'', [])
      | Some summary \<Rightarrow>
     (let eventName = B1 summary;
          numClimbs = B2 summary;
          numAttempts = B3 summary;
          eventType = B4 summary;
          scoringNotes = B5 summary
      in if falsy eventName \<or> numClimbs = 0 \<or> numAttempts = 0 \<or> falsy eventType
         then (''Error: Please fill in Event Name (B1), Number of Routes (B2), Number of Attempts (B3), and Event Type (B4) in the Summary sheet.'', [])
         else
     (let eventTypeLower = trim (toLowerCase (toString eventType))
      in if eventTypeLower \<noteq> ''boulder'' \<and> eventTypeLower \<noteq> ''rope''
         then (''Error: Event Type (B4) must be either \"boulder\" or \"rope\".'', [])
         else
     (case climbsSheet ss of
        None \<Rightarrow> (''Error: Could not find \"Climbs\" sheet. Please create it first.'', [])
      | Some climbsData \<Rightarrow>
     (let climbAssignments = parseClimbAssignments climbsData;
          queueOps =
            (if ''Queue Cards'' \<in> set (otherSheets ss) then [DeleteSheet ''Queue Cards''] else [])
            @ [InsertSheet ''Queue Cards'', OnSheet ''Queue Cards'' (SetHiddenGridlines True)];
          existing = filter (\<lambda>n. n \<noteq> ''Queue Cards'') (otherSheets ss) @ [''Queue Cards'']
      in case registrationSheet ss of
           None \<Rightarrow> (''Error: Could not find \"Registration\" sheet. Please upload your CSV first.'',
                     queueOps)
         | Some registrationData \<Rightarrow>
     (let climbers = parseClimberData localeCompare registrationData
      in if length (validClimbers climbers) = 0
         then (''No registered climbers found.'', queueOps)
         else
     (let (queueSheet, skipped) =
            createRedpointScorecards
              \<lparr> maxRows = newRows, maxColumns = newColumns, written = [] \<rparr>
              (validClimbers climbers) climbAssignments eventName numClimbs numAttempts
              scoringNotes eventType;
          allSkipped = skippedClimbers climbers @ skipped;
          (existing', checkInOps) =
            createCheckInLists localeCompare existing (validClimbers climbers)
      in (successMessage (int (length (validClimbers climbers)) - int (length skipped)) allSkipped,
          queueOps @ map (OnSheet ''Queue Cards'') (written queueSheet) @ checkInOps))))))))"

section \<open>Invariants and example inputs\<close>

definition noSessionFree :: "parseResult \<Rightarrow> bool" where
  \<comment> \<open>no skip reason recorded so far is the one of the session branch\<close>
  "noSessionFree acc =
     list_all (\<lambda>s. skip_reason s \<noteq> ''No session information found'') (skippedClimbers acc)"

definition noCollation :: "string \<Rightarrow> string \<Rightarrow> int" where
  \<comment> \<open>a collation that keeps all last names equal: the sort keeps their order\<close>
  "noCollation a b = 0"

definition ann :: climber where
  "ann = \<lparr> firstname = Text ''Ann'', lastname = Text ''Lee'', name = ''Ann Lee'', bib = Number 7,
           category = ''F12'', session = ''1'' \<rparr>"

definition bea :: climber where
  "bea = \<lparr> firstname = Text ''Bea'', lastname = Text ''Moe'', name = ''Bea Moe'', bib = Number 8,
           category = ''F12'', session = ''1'' \<rparr>"

definition cy :: climber where
  "cy = \<lparr> firstname = Text ''Cy'', lastname = Text ''Noe'', name = ''Cy Noe'', bib = Number 9,
          category = ''M40'', session = ''1'' \<rparr>"

definition climbsData :: "cell list list" where
  \<comment> \<open>the assignment table of the specification's example, under a header row\<close>
  "climbsData = [[Text ''Category'', Text ''Climbs''], [Text ''F12'', Text ''101, 102, 103'']]"

definition mixedRegistration :: "cell list list" where
  \<comment> \<open>three climbers whose ticket cells read 5, 03 and x\<close>
  "mixedRegistration =
     [[Text ''firstname'', Text ''lastname'', Text ''bib'', Text ''F12 boulder ticket''],
      [Text ''Ann'', Text ''Lee'', Number 7, Text ''5''],
      [Text ''Bea'', Text ''Moe'', Number 8, Text ''03''],
      [Text ''Cy'', Text ''Noe'', Number 9, Text ''x'']]"

definition bookWithoutRegistration :: spreadsheet where
  \<comment> \<open>a workbook with a filled Summary, a Climbs sheet, cards of an earlier run, and no
      Registration sheet\<close>
  "bookWithoutRegistration =
     \<lparr> summarySheet = Some \<lparr> B1 = Text ''Cup'', B2 = 2, B3 = 3, B4 = Text ''boulder'', B5 = Text [] \<rparr>,
       climbsSheet = Some climbsData,
       registrationSheet = None,
       otherSheets = [''Queue Cards''] \<rparr>"

definition zed :: climber where
  \<comment> \<open>a climber registered under the ticket column ``constructor boulder ticket''\<close>
  "zed = \<lparr> firstname = Text ''Zed'', lastname = Text ''Poe'', name = ''Zed Poe'', bib = Number 5,
           category = ''constructor'', session = ''1'' \<rparr>"

definition newSheet :: sheet where
  \<comment> \<open>the sheet Queue Cards as the orchestrator hands it over: new, 1000 rows by 26
      columns\<close>
  "newSheet = \<lparr> maxRows = 1000, maxColumns = 26, written = [] \<rparr>"

definition namedRegistration :: "cell list list" where
  \<comment> \<open>the data rows of a registration sheet: a climber with a blank ticket cell, a row
      whose only name is one blank, and a climber with a ticket\<close>
  "namedRegistration =
     [[Text ''Cy'', Text [], Number 8, Text '' ''],
      [Text '' '', Text [], Text [], Text []],
      [Text ''Al'', Text ''Ek'', Number 9, Text ''2'']]"

definition registrationHeader :: "cell list" where
  "registrationHeader =
     [Text ''firstname'', Text ''lastname'', Text ''bib'', Text ''F12 boulder ticket'']"

subsection \<open>The rows of a registration sheet\<close>

definition rowName :: "cell list \<Rightarrow> cell list \<Rightarrow> string" where
  \<comment> \<open>\<^verbatim>\<open>climberName\<close> of a data row under a header row\<close>
  "rowName header dataRow =
     (let headerRow = splitRow header;
          row = splitRow dataRow
      in trim (toString (cellAt row (indexOf headerRow (Text ''firstname''))) @ '' ''
               @ toString (cellAt row (indexOf headerRow (Text ''lastname'')))))"

definition hasName :: "cell list \<Rightarrow> cell list \<Rightarrow> bool" where
  \<comment> \<open>the row passes the test \<^verbatim>\<open>if (!firstname && !lastname) continue\<close>\<close>
  "hasName header dataRow =
     (let headerRow = splitRow header;
          row = splitRow dataRow
      in truthy (cellAt row (indexOf headerRow (Text ''firstname''))) \<or>
         truthy (cellAt row (indexOf headerRow (Text ''lastname''))))"

definition noTicket :: "cell list \<Rightarrow> cell list \<Rightarrow> bool" where
  \<comment> \<open>every ticket cell of the row is empty or white space\<close>
  "noTicket header dataRow =
     list_all (\<lambda>ticket. trim (toString (cellAt (splitRow dataRow) (fst ticket))) = [])
       (ticketColumnsFrom 0 (splitRow header))"

definition noTicketSkip :: "cell list \<Rightarrow> cell list \<Rightarrow> skippedClimber" where
  "noTicketSkip header dataRow =
     \<lparr> skip_name = rowName header dataRow, skip_category = None,
       skip_reason = ''No registration/ticket information found'' \<rparr>"

definition rowClimbers :: "cell list \<Rightarrow> cell list \<Rightarrow> climber list" where
  \<comment> \<open>the climbers that one pass of the loop over the data rows records for a row\<close>
  "rowClimbers header dataRow =
     (let headerRow = splitRow header
      in validClimbers
           (processRow (indexOf headerRow (Text ''firstname''))
              (indexOf headerRow (Text ''lastname'')) (indexOf headerRow (Text ''bib''))
              (ticketColumnsFrom 0 headerRow) dataRow
              \<lparr> validClimbers = [], skippedClimbers = [] \<rparr>))"

definition textLastNames :: "cell list \<Rightarrow> cell list list \<Rightarrow> bool" where
  \<comment> \<open>every last name is text, so that the final sort can collate it\<close>
  "textLastNames header dataRows =
     list_all (\<lambda>dataRow. isText (cellAt (splitRow dataRow)
                                    (indexOf (splitRow header) (Text ''lastname''))))
       dataRows"

subsection \<open>The cards of a run\<close>

definition plainCategories :: "(string \<rightharpoonup> string list) \<Rightarrow> climber list \<Rightarrow> bool" where
  \<comment> \<open>nothing in the run touches the key \<^verbatim>\<open>__proto__\<close>: the table has no such row and no
      climber is of that category\<close>
  "plainCategories climbAssignments climbers =
     (climbAssignments ''__proto__'' = None \<and>
      list_all (\<lambda>climber. category climber \<noteq> ''__proto__'') climbers)"

definition getsCard :: "(string \<rightharpoonup> string list) \<Rightarrow> climber \<Rightarrow> bool" where
  \<comment> \<open>the lookup for the category of the climber has a \<^verbatim>\<open>length\<close> other than 0\<close>
  "getsCard climbAssignments climber =
     (case lengthOf (lookupClimbs climbAssignments (category climber)) of
        None \<Rightarrow> False
      | Some categoryClimbsLength \<Rightarrow> categoryClimbsLength \<noteq> 0)"

definition shownClimbs :: "(string \<rightharpoonup> string list) \<Rightarrow> int \<Rightarrow> climber \<Rightarrow> string list" where
  \<comment> \<open>the climb identifiers that the grid of the climber's card prints, in order\<close>
  "shownClimbs climbAssignments numClimbs climber =
     (let categoryClimbs = lookupClimbs climbAssignments (category climber)
      in case lengthOf categoryClimbs of
           None \<Rightarrow> []
         | Some categoryClimbsLength \<Rightarrow>
             map (itemText categoryClimbs) [0..<nat (min categoryClimbsLength numClimbs)])"

definition noClimbsSkip :: "climber \<Rightarrow> skippedClimber" where
  "noClimbsSkip climber =
     \<lparr> skip_name = name climber, skip_category = Some (category climber),
       skip_reason = ''No climbs assigned to category'' \<rparr>"

definition cardCalls ::
  "(string \<rightharpoonup> string list) \<Rightarrow> cell \<Rightarrow> int \<Rightarrow> int \<Rightarrow> cell \<Rightarrow> string \<Rightarrow> int \<Rightarrow> climber
   \<Rightarrow> sheetOp list" where
  \<comment> \<open>the calls that lay out the card of a climber from row \<open>r\<close>\<close>
  "cardCalls climbAssignments eventName numClimbs numAttempts scoringNotes climbPrefix r climber =
     cardOps (layoutCard climbAssignments eventName numClimbs numAttempts scoringNotes climbPrefix
                0 climber
                \<lparr> currentRow = r, successfulCards = 0, layoutSkipped = [], cardOps = [],
                  cursorLost = False \<rparr>)"

subsection \<open>The pagination policy of the specification\<close>

text \<open>
  The specification places the cards of a run by a policy of its own wording, which the
  model writes down apart from the code, to compare the two. A card with \<open>n\<close> climb rows
  uses \<open>1 + 2 + 2 + 1 + 2n\<close> row-units (the spacer counts 1, double-height rows count 2),
  and 2 more with scoring notes; on the sheet it takes \<open>4 + n\<close> rows, and 2 more with
  scoring notes. The first card of a pair (the count of cards so far is even) is padded
  up to 33 row-units and followed by one more row; the second is padded up to 34
  row-units, and a gap of 2 rows comes before the next pair unless the card is the last
  one laid out. A card taller than its target is followed by no padding.
\<close>

definition specRowUnits :: "bool \<Rightarrow> int \<Rightarrow> int" where
  "specRowUnits withNotes n = 1 + 2 + 2 + 1 + 2 * n + (if withNotes then 2 else 0)"

definition specSheetRows :: "bool \<Rightarrow> int \<Rightarrow> int" where
  "specSheetRows withNotes n = 4 + n + (if withNotes then 2 else 0)"

definition specAdvance :: "bool \<Rightarrow> int \<Rightarrow> int \<Rightarrow> bool \<Rightarrow> int" where
  \<comment> \<open>the rows from the first row of card number \<open>k\<close> (from 0) to the first row of the
      next card; \<open>isLast\<close> says that no card is laid out after it\<close>
  "specAdvance withNotes k n isLast =
     specSheetRows withNotes n
     + max 0 ((if k mod 2 = 0 then 33 else 34) - specRowUnits withNotes n)
     + (if k mod 2 = 0 then 1 else if isLast then 0 else 2)"

fun specCardStarts :: "bool \<Rightarrow> int \<Rightarrow> int \<Rightarrow> int list \<Rightarrow> int list" where
  \<comment> \<open>the first rows of the cards whose numbers of climb rows are given, when card number
      \<open>k\<close> begins on row \<open>r\<close>\<close>
  "specCardStarts withNotes r k [] = []"
| "specCardStarts withNotes r k (n # ns) =
     r # specCardStarts withNotes (r + specAdvance withNotes k n (ns = [])) (k + 1) ns"

section \<open>Properties of the category comparator\<close>

lemma parseInt_examples:
  "parseInt ''40'' = Some 40" "parseInt ''10'' = Some 10" "parseInt [] = None"
  "parseInt '' -7x'' = Some (- 7)" "parseInt ''0x1f'' = Some 31"
  by (simp_all add: parseInt_def isWhiteSpace_def radixDigit_def fromDigits_def)

lemma tableRank_cases:
  "g \<noteq> ''F'' \<Longrightarrow> orNumber (genderOrder g) 3 = tableRank g"
  "g \<noteq> ''F'' \<Longrightarrow> tableRank g = 1 \<or> tableRank g = 2 \<or> tableRank g = 3"
  by (simp_all add: tableRank_def genderOrder_def orNumber_def)

text \<open>
  Claim C1 (the code departs from it). The comparator is meant to rank F below M below U
  below every other first character, whatever the ages, so that comparing F40 with M10 is
  negative. In the code the rank of F is written \<^verbatim>\<open>genderOrder['F'] || 3\<close>, and 0 is falsy:
  F gets rank 3, and comparing F40 with M10 gives 2.
\<close>

theorem C1_F40_M10_is_positive:
  "compareCategoriesRedpoint ''F40'' ''M10'' = 2 \<and> genderRank ''F40'' = 3 \<and> genderRank ''M10'' = 1"
  by (simp add: compareCategoriesRedpoint_def genderRank_def getGenderAge_def charAt0_def
      genderOrder_def orNumber_def)

text \<open>
  Claim C4, as amended. The comparator does not return one of -1, 0 and 1: comparing M10
  with M40 gives -30. For two categories of the same gender code it returns the
  difference of the two ages. For two categories neither of which is of gender F it
  returns the difference of the ranks that the table gives the two codes (M 1, U 2, any
  other code 3) when they differ, one of -2, -1, 1 and 2, and the difference of the two
  ages when they are equal. Swapping the two categories negates the result. (What it
  returns for F against another gender is the matter of claim C1. The ages are at most
  \<open>2^52\<close> in magnitude, where the arithmetic of the host is exact.)
\<close>

theorem C4_compare_is_a_difference:
  assumes "\<bar>age (getGenderAge catA)\<bar> \<le> 2 ^ 52"
    and "\<bar>age (getGenderAge catB)\<bar> \<le> 2 ^ 52"
  shows "compareCategoriesRedpoint catB catA = - compareCategoriesRedpoint catA catB
       \<and> (gender (getGenderAge catA) = gender (getGenderAge catB) \<longrightarrow>
            compareCategoriesRedpoint catA catB
              = age (getGenderAge catA) - age (getGenderAge catB))
       \<and> (gender (getGenderAge catA) \<noteq> ''F'' \<and> gender (getGenderAge catB) \<noteq> ''F'' \<longrightarrow>
            (tableRank (gender (getGenderAge catA)) = tableRank (gender (getGenderAge catB)) \<longrightarrow>
               compareCategoriesRedpoint catA catB
                 = age (getGenderAge catA) - age (getGenderAge catB)) \<and>
            (tableRank (gender (getGenderAge catA)) \<noteq> tableRank (gender (getGenderAge catB)) \<longrightarrow>
               compareCategoriesRedpoint catA catB
                 = tableRank (gender (getGenderAge catA)) - tableRank (gender (getGenderAge catB))
               \<and> compareCategoriesRedpoint catA catB \<in> {- 2, - 1, 1, 2}))"
proof -
  let ?a = "getGenderAge catA"
  let ?b = "getGenderAge catB"
  have swap: "compareCategoriesRedpoint catB catA = - compareCategoriesRedpoint catA catB"
    by (simp add: compareCategoriesRedpoint_def Let_def)
  have same: "gender ?a = gender ?b \<longrightarrow> compareCategoriesRedpoint catA catB = age ?a - age ?b"
    by (simp add: compareCategoriesRedpoint_def Let_def)
  have other: "gender ?a \<noteq> ''F'' \<and> gender ?b \<noteq> ''F'' \<longrightarrow>
      (tableRank (gender ?a) = tableRank (gender ?b) \<longrightarrow>
         compareCategoriesRedpoint catA catB = age ?a - age ?b) \<and>
      (tableRank (gender ?a) \<noteq> tableRank (gender ?b) \<longrightarrow>
         compareCategoriesRedpoint catA catB = tableRank (gender ?a) - tableRank (gender ?b)
         \<and> compareCategoriesRedpoint catA catB \<in> {- 2, - 1, 1, 2})"
  proof
    assume g: "gender ?a \<noteq> ''F'' \<and> gender ?b \<noteq> ''F''"
    then have eq: "compareCategoriesRedpoint catA catB
        = (if tableRank (gender ?a) - tableRank (gender ?b) \<noteq> 0
           then tableRank (gender ?a) - tableRank (gender ?b) else age ?a - age ?b)"
      by (simp add: compareCategoriesRedpoint_def Let_def tableRank_cases(1))
    show "(tableRank (gender ?a) = tableRank (gender ?b) \<longrightarrow>
         compareCategoriesRedpoint catA catB = age ?a - age ?b) \<and>
      (tableRank (gender ?a) \<noteq> tableRank (gender ?b) \<longrightarrow>
         compareCategoriesRedpoint catA catB = tableRank (gender ?a) - tableRank (gender ?b)
         \<and> compareCategoriesRedpoint catA catB \<in> {- 2, - 1, 1, 2})"
      using g tableRank_cases(2) [of "gender ?a"] tableRank_cases(2) [of "gender ?b"]
      unfolding eq by auto
  qed
  show ?thesis
    using swap same other by blast
qed

theorem C4_difference_witness:
  "compareCategoriesRedpoint ''M10'' ''M40'' = age (getGenderAge ''M10'') - age (getGenderAge ''M40'')
   \<and> compareCategoriesRedpoint ''U5'' ''M10'' = 1
   \<and> compareCategoriesRedpoint ''M10'' ''U5'' = - 1"
proof -
  have ages: "age (getGenderAge ''M10'') = 10" "age (getGenderAge ''M40'') = 40"
    "age (getGenderAge ''U5'') = 5"
    by (simp_all add: getGenderAge_def orNumber_def parseInt_def isWhiteSpace_def radixDigit_def
        fromDigits_def)
  have genders: "gender (getGenderAge ''M10'') = ''M''" "gender (getGenderAge ''M40'') = ''M''"
    "gender (getGenderAge ''U5'') = ''U''"
    by (simp_all add: getGenderAge_def charAt0_def)
  have ranks: "tableRank ''M'' = 1" "tableRank ''U'' = 2"
    by (simp_all add: tableRank_def genderOrder_def)
  have h: "\<bar>age (getGenderAge ''M10'')\<bar> \<le> 2 ^ 52" "\<bar>age (getGenderAge ''M40'')\<bar> \<le> 2 ^ 52"
    "\<bar>age (getGenderAge ''U5'')\<bar> \<le> 2 ^ 52"
    by (simp_all add: ages)
  show ?thesis
    using C4_compare_is_a_difference [OF h(1) h(2)] C4_compare_is_a_difference [OF h(3) h(1)]
    by (simp add: genders ranks)
qed

theorem C4_result_outside_sign_set:
  "compareCategoriesRedpoint ''M10'' ''M40'' = - 30 \<and>
   compareCategoriesRedpoint ''M10'' ''M40'' \<notin> {- 1, 0, 1}"
  by (simp add: compareCategoriesRedpoint_def getGenderAge_def charAt0_def
      genderOrder_def orNumber_def parseInt_def isWhiteSpace_def radixDigit_def fromDigits_def)

section \<open>Properties of the registration parser\<close>

lemma trim_nonempty_iff: "trim s \<noteq> [] \<longleftrightarrow> (\<exists>c \<in> set s. \<not> isWhiteSpace c)"
proof
  assume "trim s \<noteq> []"
  then have "\<exists>c \<in> set (dropWhile isWhiteSpace s). \<not> isWhiteSpace c"
    by (auto simp: trim_def dropWhile_eq_Nil_conv)
  then show "\<exists>c \<in> set s. \<not> isWhiteSpace c"
    using set_dropWhileD by fastforce
next
  assume "\<exists>c \<in> set s. \<not> isWhiteSpace c"
  then have ne: "dropWhile isWhiteSpace s \<noteq> []"
    by (auto simp: dropWhile_eq_Nil_conv)
  then have "\<not> isWhiteSpace (hd (dropWhile isWhiteSpace s))"
    by (rule hd_dropWhile)
  moreover have "hd (dropWhile isWhiteSpace s) \<in> set (dropWhile isWhiteSpace s)"
    using ne by simp
  ultimately show "trim s \<noteq> []"
    by (auto simp: trim_def dropWhile_eq_Nil_conv)
qed

lemma digit_not_space: "isDigit c \<Longrightarrow> \<not> isWhiteSpace c"
  by (auto simp: isDigit_def isWhiteSpace_def)

lemma matchDigits_Some:
  assumes "matchDigits s = Some m"
  shows "m \<noteq> [] \<and> isDigit (hd m)"
proof -
  let ?r = "dropWhile (\<lambda>c. \<not> isDigit c) s"
  from assms have ne: "?r \<noteq> []" and m: "m = takeWhile isDigit ?r"
    by (auto simp: matchDigits_def Let_def split: if_splits)
  from ne have "\<not> \<not> isDigit (hd ?r)" by (rule hd_dropWhile)
  then have d: "isDigit (hd ?r)" by simp
  with ne m show ?thesis by (cases ?r) auto
qed

lemma sessionOf_not_blank:
  assumes "trim (toString ticketValue) \<noteq> []"
  shows "sessionOf ticketValue \<noteq> [] \<and> trim (sessionOf ticketValue) \<noteq> []"
proof (cases "matchDigits (toString ticketValue)")
  case None
  with assms show ?thesis by (auto simp: sessionOf_def trim_def)
next
  case (Some m)
  then have "m \<noteq> []" "isDigit (hd m)" using matchDigits_Some by auto
  then have "\<exists>c \<in> set m. \<not> isWhiteSpace c"
    using digit_not_space hd_in_set by blast
  then have "trim m \<noteq> []" by (simp add: trim_nonempty_iff)
  with Some \<open>m \<noteq> []\<close> show ?thesis by (simp add: sessionOf_def)
qed

lemma ticketLoop_noSession:
  "noSessionFree acc \<Longrightarrow> noSessionFree (fst (ticketLoop row f l b n tickets acc))"
proof (induction tickets)
  case Nil
  then show ?case by simp
next
  case (Cons t tickets)
  obtain idx cat where t: "t = (idx, cat)" by (cases t)
  show ?case
    using Cons sessionOf_not_blank [of "cellAt row idx"]
    by (auto simp: t Let_def noSessionFree_def)
qed

lemma processRow_noSession:
  assumes "noSessionFree acc"
  shows "noSessionFree (processRow fi li bi tickets r acc)"
proof -
  let ?row = "splitRow r"
  let ?n = "trim (toString (cellAt ?row fi) @ '' '' @ toString (cellAt ?row li))"
  obtain acc' found where tl:
    "ticketLoop ?row (cellAt ?row fi) (cellAt ?row li) (cellAt ?row bi) ?n tickets acc = (acc', found)"
    by (cases "ticketLoop ?row (cellAt ?row fi) (cellAt ?row li) (cellAt ?row bi) ?n tickets acc")
  have "noSessionFree (fst (ticketLoop ?row (cellAt ?row fi) (cellAt ?row li) (cellAt ?row bi) ?n tickets acc))"
    using assms by (rule ticketLoop_noSession)
  then have "noSessionFree acc'"
    unfolding tl by simp
  then show ?thesis
    using assms unfolding processRow_def Let_def tl
    by (simp add: noSessionFree_def)
qed

lemma foldl_processRow_noSession:
  "noSessionFree acc \<Longrightarrow>
   noSessionFree (foldl (\<lambda>acc r. processRow fi li bi tickets r acc) acc rows)"
  by (induction rows arbitrary: acc) (auto simp: processRow_noSession)

lemma parseClimberData_noSession: "noSessionFree (parseClimberData lc data)"
proof -
  have e: "noSessionFree \<lparr> validClimbers = [], skippedClimbers = [] \<rparr>"
    by (simp add: noSessionFree_def)
  have upd: "noSessionFree (acc\<lparr> validClimbers := v \<rparr>) = noSessionFree acc" for acc v
    by (simp add: noSessionFree_def)
  show ?thesis
  proof (cases data)
    case Nil
    then show ?thesis by (simp add: parseClimberData_def e)
  next
    case (Cons header rows)
    show ?thesis
    proof (cases rows)
      case Nil
      with Cons show ?thesis by (simp add: parseClimberData_def e)
    next
      case (Cons dataRow dataRows)
      show ?thesis
        unfolding parseClimberData_def \<open>data = header # rows\<close> Cons list.case Let_def upd
        by (rule foldl_processRow_noSession [OF e])
    qed
  qed
qed

lemma ticketLoop_blank:
  "list_all (\<lambda>t. trim (toString (cellAt row (fst t))) = []) tickets \<Longrightarrow>
   ticketLoop row f l b n tickets acc = (acc, False)"
proof (induction tickets)
  case Nil
  then show ?case by simp
next
  case (Cons t tickets)
  obtain idx cat where t: "t = (idx, cat)" by (cases t)
  from Cons show ?case by (simp add: t)
qed

lemma ticketLoop_found:
  assumes "\<not> list_all (\<lambda>t. trim (toString (cellAt row (fst t))) = []) tickets"
  shows "\<exists>found. ticketLoop row f l b n tickets acc
                  = (acc\<lparr> validClimbers := validClimbers acc @ [found] \<rparr>, True)"
  using assms
proof (induction tickets)
  case Nil
  then show ?case by simp
next
  case (Cons t tickets)
  obtain idx cat where t: "t = (idx, cat)" by (cases t)
  show ?case
  proof (cases "trim (toString (cellAt row idx)) = []")
    case True
    then have "\<not> (truthy (cellAt row idx) \<and> trim (toString (cellAt row idx)) \<noteq> [])" by simp
    moreover from Cons.prems True
    have "\<not> list_all (\<lambda>t. trim (toString (cellAt row (fst t))) = []) tickets"
      by (simp add: t)
    ultimately show ?thesis
      using Cons.IH True by (simp add: t Let_def)
  next
    case False
    then have "toString (cellAt row idx) \<noteq> []"
      by (auto simp: trim_def)
    then have "truthy (cellAt row idx)"
      by (auto simp: cellAt_def Let_def toString_def split: if_splits)
    moreover have "sessionOf (cellAt row idx) \<noteq> [] \<and> trim (sessionOf (cellAt row idx)) \<noteq> []"
      using False by (rule sessionOf_not_blank)
    ultimately show ?thesis
      using False by (auto simp: t Let_def)
  qed
qed

lemma blank_name:
  assumes "falsy (cellAt row fi)" and "falsy (cellAt row li)"
  shows "trim (toString (cellAt row fi) @ '' '' @ toString (cellAt row li)) = []"
proof -
  from assms have "cellAt row fi = Text []" "cellAt row li = Text []"
    by (auto simp: falsy_def cellAt_def Let_def split: if_splits)
  then show ?thesis
    by (simp add: toString_def trim_def isWhiteSpace_def)
qed

lemma processRow_outcome:
  fixes fi li bi tickets r
  defines "row \<equiv> splitRow r"
  defines "nm \<equiv> trim (toString (cellAt row fi) @ '' '' @ toString (cellAt row li))"
  defines "blank \<equiv> list_all (\<lambda>t. trim (toString (cellAt row (fst t))) = []) tickets"
  defines "named \<equiv> truthy (cellAt row fi) \<or> truthy (cellAt row li)"
  shows "skippedClimbers (processRow fi li bi tickets r acc)
         = skippedClimbers acc
           @ (if nm \<noteq> [] \<and> blank
              then [\<lparr> skip_name = nm, skip_category = None,
                      skip_reason = ''No registration/ticket information found'' \<rparr>]
              else [])
       \<and> length (validClimbers (processRow fi li bi tickets r acc))
         = length (validClimbers acc) + (if named \<and> \<not> blank then 1 else 0)"
proof (cases named)
  case False
  then have f: "falsy (cellAt row fi)" "falsy (cellAt row li)"
    by (simp_all add: named_def falsy_def)
  then have "nm = []"
    unfolding nm_def by (rule blank_name)
  with f False show ?thesis
    unfolding processRow_def Let_def row_def [symmetric]
    by simp
next
  case True
  then have nf: "\<not> (falsy (cellAt row fi) \<and> falsy (cellAt row li))"
    by (auto simp: named_def falsy_def)
  show ?thesis
  proof (cases blank)
    case True
    then have loop: "ticketLoop row (cellAt row fi) (cellAt row li) (cellAt row bi) n tickets acc
                     = (acc, False)" for n
      unfolding blank_def by (rule ticketLoop_blank)
    show ?thesis
      using nf True \<open>named\<close>
      unfolding processRow_def Let_def row_def [symmetric] nm_def [symmetric] loop
      by auto
  next
    case False
    then obtain found where loop:
      "ticketLoop row (cellAt row fi) (cellAt row li) (cellAt row bi) nm tickets acc
       = (acc\<lparr> validClimbers := validClimbers acc @ [found] \<rparr>, True)"
      unfolding blank_def using ticketLoop_found by blast
    show ?thesis
      using nf False \<open>named\<close>
      unfolding processRow_def Let_def row_def [symmetric] nm_def [symmetric] loop
      by auto
  qed
qed

lemma ticketLoop_appends:
  "validClimbers (fst (ticketLoop row f l b n tickets acc))
   = validClimbers acc
     @ validClimbers (fst (ticketLoop row f l b n tickets
                             \<lparr> validClimbers = [], skippedClimbers = [] \<rparr>))"
proof (induction tickets)
  case Nil
  then show ?case by simp
next
  case (Cons t tickets)
  obtain idx cat where t: "t = (idx, cat)" by (cases t)
  show ?case
    using Cons by (simp add: t Let_def)
qed

lemma processRow_appends:
  "validClimbers (processRow fi li bi tickets r acc)
   = validClimbers acc
     @ validClimbers (processRow fi li bi tickets r \<lparr> validClimbers = [], skippedClimbers = [] \<rparr>)"
proof -
  let ?row = "splitRow r"
  let ?n = "trim (toString (cellAt ?row fi) @ '' '' @ toString (cellAt ?row li))"
  let ?loop = "ticketLoop ?row (cellAt ?row fi) (cellAt ?row li) (cellAt ?row bi) ?n tickets"
  let ?e = "\<lparr> validClimbers = [], skippedClimbers = [] \<rparr>"
  have valid: "validClimbers (processRow fi li bi tickets r a)
      = (if falsy (cellAt ?row fi) \<and> falsy (cellAt ?row li) then validClimbers a
         else validClimbers (fst (?loop a)))" for a
    by (cases "?loop a") (simp add: processRow_def Let_def)
  show ?thesis
    unfolding valid
    using ticketLoop_appends [of ?row "cellAt ?row fi" "cellAt ?row li" "cellAt ?row bi" ?n tickets acc]
    by simp
qed

lemma foldl_processRow_appends:
  "validClimbers (foldl (\<lambda>acc r. processRow fi li bi tickets r acc) acc rows)
   = validClimbers acc
     @ concat (map (\<lambda>r. validClimbers (processRow fi li bi tickets r
                                           \<lparr> validClimbers = [], skippedClimbers = [] \<rparr>)) rows)"
proof (induction rows arbitrary: acc)
  case Nil
  then show ?case by simp
next
  case (Cons r rows)
  show ?case
    using Cons.IH [of "processRow fi li bi tickets r acc"]
      processRow_appends [of fi li bi tickets r acc]
    by simp
qed

lemma concat_map_if: "concat (map (\<lambda>x. if P x then [f x] else []) xs) = map f (filter P xs)"
  by (induction xs) simp_all

lemma foldl_processRow_skips:
  "skippedClimbers (foldl (\<lambda>acc r. processRow fi li bi tickets r acc) acc rows)
   = skippedClimbers acc
     @ map (\<lambda>r. \<lparr> skip_name = trim (toString (cellAt (splitRow r) fi) @ '' ''
                                      @ toString (cellAt (splitRow r) li)),
                  skip_category = None,
                  skip_reason = ''No registration/ticket information found'' \<rparr>)
         (filter (\<lambda>r. trim (toString (cellAt (splitRow r) fi) @ '' ''
                            @ toString (cellAt (splitRow r) li)) \<noteq> [] \<and>
                      list_all (\<lambda>t. trim (toString (cellAt (splitRow r) (fst t))) = []) tickets)
            rows)"
proof (induction rows arbitrary: acc)
  case Nil
  then show ?case by simp
next
  case (Cons r rows)
  show ?case
    using Cons.IH [of "processRow fi li bi tickets r acc"]
      processRow_outcome [of fi li bi tickets r acc]
    by simp
qed

lemma insertSorted_count:
  "count_list (insertSorted cmp x ys) c = count_list (x # ys) c"
  by (induction ys) auto

lemma sortBy_count: "count_list (sortBy cmp xs) c = count_list xs c"
proof -
  have "count_list (foldl (\<lambda>sorted x. insertSorted cmp x sorted) acc xs) c
        = count_list acc c + count_list xs c" for acc
    by (induction xs arbitrary: acc) (simp_all add: insertSorted_count)
  then show ?thesis by (simp add: sortBy_def)
qed

text \<open>
  Claim C8, as amended. The skip reasons of a parse are, in the order of the rows, one for
  each data row whose name is not empty after joining the first and the last name with a
  blank and trimming, and whose ticket cells are all empty or white space: it has the
  name of the row, no category and the text ``No registration/ticket information found''.
  The climbers of a parse are those recorded row by row, reordered by the final sort; a
  row records one climber when it has a first or a last name and a ticket, and none
  otherwise. So a row without a ticket adds no climber, and a row without a ticket whose
  joined name is empty after trimming (a first name of one blank and no last name, say)
  adds nothing at all. The last names are text, which the final sort relies on.
\<close>

theorem C8_rows_without_ticket:
  assumes "textLastNames header dataRows"
  shows "skippedClimbers (parseClimberData localeCompare (header # dataRows))
         = map (noTicketSkip header)
             (filter (\<lambda>dataRow. rowName header dataRow \<noteq> [] \<and> noTicket header dataRow) dataRows)
       \<and> count_list (validClimbers (parseClimberData localeCompare (header # dataRows))) c
         = count_list (concat (map (rowClimbers header) dataRows)) c
       \<and> length (rowClimbers header dataRow)
         = (if hasName header dataRow \<and> \<not> noTicket header dataRow then 1 else 0)"
proof -
  let ?fi = "indexOf (splitRow header) (Text ''firstname'')"
  let ?li = "indexOf (splitRow header) (Text ''lastname'')"
  let ?bi = "indexOf (splitRow header) (Text ''bib'')"
  let ?tickets = "ticketColumnsFrom 0 (splitRow header)"
  let ?e = "\<lparr> validClimbers = [], skippedClimbers = [] \<rparr>"
  let ?parsed = "foldl (\<lambda>acc r. processRow ?fi ?li ?bi ?tickets r acc) ?e dataRows"
  have parse: "parseClimberData localeCompare (header # dataRows)
      = ?parsed\<lparr> validClimbers := sortBy (compareClimbers localeCompare) (validClimbers ?parsed) \<rparr>"
    by (cases dataRows) (simp_all add: parseClimberData_def Let_def sortBy_def)
  have skips: "skippedClimbers (parseClimberData localeCompare (header # dataRows))
      = map (noTicketSkip header)
          (filter (\<lambda>dataRow. rowName header dataRow \<noteq> [] \<and> noTicket header dataRow) dataRows)"
    unfolding parse
    using foldl_processRow_skips [of ?fi ?li ?bi ?tickets ?e dataRows]
    by (simp add: noTicketSkip_def rowName_def noTicket_def Let_def)
  have perRow: "rowClimbers header
      = (\<lambda>r. validClimbers (processRow ?fi ?li ?bi ?tickets r ?e))"
    by (rule ext) (simp add: rowClimbers_def Let_def)
  have climbers: "count_list (validClimbers (parseClimberData localeCompare (header # dataRows))) c
      = count_list (concat (map (rowClimbers header) dataRows)) c"
    unfolding parse perRow
    using foldl_processRow_appends [of ?fi ?li ?bi ?tickets ?e dataRows]
    by (simp add: sortBy_count)
  have one: "length (rowClimbers header dataRow)
      = (if hasName header dataRow \<and> \<not> noTicket header dataRow then 1 else 0)"
    using processRow_outcome [of ?fi ?li ?bi ?tickets dataRow ?e]
    by (simp add: rowClimbers_def hasName_def noTicket_def Let_def)
  show ?thesis
    using skips climbers one by blast
qed

theorem C8_rows_witness:
  "skippedClimbers (parseClimberData noCollation (registrationHeader # namedRegistration))
   = [\<lparr> skip_name = ''Cy'', skip_category = None,
        skip_reason = ''No registration/ticket information found'' \<rparr>]
   \<and> rowClimbers registrationHeader [Text ''Cy'', Text [], Number 8, Text '' ''] = []
   \<and> rowClimbers registrationHeader [Text '' '', Text [], Text [], Text []] = []
   \<and> length (rowClimbers registrationHeader [Text ''Al'', Text ''Ek'', Number 9, Text ''2'']) = 1"
proof -
  have header: "splitRow registrationHeader = registrationHeader"
    by (simp add: registrationHeader_def splitRow_def)
  have tickets: "ticketColumnsFrom 0 registrationHeader = [(3, ''F12'')]"
    by (simp add: registrationHeader_def isTicketHeader_def truthy_def toString_def
        endsWith_def ticketCategory_def)
  have idx: "indexOf registrationHeader (Text ''firstname'') = 0"
    "indexOf registrationHeader (Text ''lastname'') = 1"
    by (simp_all add: registrationHeader_def)
  have rows:
    "splitRow [Text ''Cy'', Text [], Number 8, Text '' ''] = [Text ''Cy'', Text [], Number 8, Text '' '']"
    "splitRow [Text '' '', Text [], Text [], Text []] = [Text '' '', Text [], Text [], Text []]"
    "splitRow [Text ''Al'', Text ''Ek'', Number 9, Text ''2''] = [Text ''Al'', Text ''Ek'', Number 9, Text ''2'']"
    by (simp_all add: splitRow_def)
  have h: "textLastNames registrationHeader namedRegistration"
    by (simp add: textLastNames_def header idx namedRegistration_def rows
        cellAt_def truthy_def isText_def)
  have names:
    "rowName registrationHeader [Text ''Cy'', Text [], Number 8, Text '' ''] = ''Cy''"
    "rowName registrationHeader [Text '' '', Text [], Text [], Text []] = []"
    "rowName registrationHeader [Text ''Al'', Text ''Ek'', Number 9, Text ''2''] = ''Al Ek''"
    by (simp_all add: rowName_def header idx rows cellAt_def truthy_def toString_def
        trim_def isWhiteSpace_def)
  have blank:
    "noTicket registrationHeader [Text ''Cy'', Text [], Number 8, Text '' '']"
    "noTicket registrationHeader [Text '' '', Text [], Text [], Text []]"
    "\<not> noTicket registrationHeader [Text ''Al'', Text ''Ek'', Number 9, Text ''2'']"
    by (simp_all add: noTicket_def header tickets rows cellAt_def truthy_def toString_def
        trim_def isWhiteSpace_def)
  have named:
    "hasName registrationHeader [Text ''Al'', Text ''Ek'', Number 9, Text ''2'']"
    by (simp add: hasName_def header idx rows cellAt_def truthy_def)
  show ?thesis
    using C8_rows_without_ticket [OF h, of noCollation ann
        "[Text ''Cy'', Text [], Number 8, Text '' '']"]
      C8_rows_without_ticket [OF h, of noCollation ann
        "[Text '' '', Text [], Text [], Text []]"]
      C8_rows_without_ticket [OF h, of noCollation ann
        "[Text ''Al'', Text ''Ek'', Number 9, Text ''2'']"]
    by (simp add: namedRegistration_def noTicketSkip_def names blank named)
qed

theorem C8_whitespace_name_row_is_dropped:
  "truthy (Text '' '') \<and>
   parseClimberData noCollation
     [[Text ''firstname'', Text ''lastname'', Text ''bib'', Text ''F12 boulder ticket''],
      [Text '' '', Text [], Text [], Text []]]
   = \<lparr> validClimbers = [], skippedClimbers = [] \<rparr>"
  by (simp add: parseClimberData_def processRow_def splitRow_def cellAt_def truthy_def falsy_def
      toString_def trim_def isWhiteSpace_def isTicketHeader_def endsWith_def ticketCategory_def
      sortBy_def Let_def)

text \<open>
  Claim C10. The branch of the parser that rejects a row for want of a session cannot be
  taken: a ticket cell that is truthy and not blank gives a session token (its first run
  of digits, or its whole text) that is neither empty nor blank, so no skip reason of any
  parse reads ``No session information found''.
\<close>

theorem C10_no_session_branch_unreachable:
  "(truthy ticketValue \<and> trim (toString ticketValue) \<noteq> [] \<longrightarrow>
      sessionOf ticketValue \<noteq> [] \<and> trim (sessionOf ticketValue) \<noteq> []) \<and>
   list_all (\<lambda>s. skip_reason s \<noteq> ''No session information found'')
     (skippedClimbers (parseClimberData localeCompare data))"
  using sessionOf_not_blank [of ticketValue] parseClimberData_noSession [of localeCompare data]
  by (simp add: noSessionFree_def)

theorem C10_no_session_witness:
  "truthy (Text ''Session 2'') \<and> trim (toString (Text ''Session 2'')) \<noteq> [] \<and>
   trim (sessionOf (Text ''Session 2'')) \<noteq> [] \<and>
   list_all (\<lambda>s. skip_reason s \<noteq> ''No session information found'')
     (skippedClimbers (parseClimberData noCollation
        [[Text ''firstname'', Text ''lastname'', Text ''F12 boulder ticket''],
         [Text ''Cy'', Text ''Oz'', Text '' ''],
         [Text ''Al'', Text ''Ek'', Text ''Session 2'']]))"
proof -
  have h: "truthy (Text ''Session 2'') \<and> trim (toString (Text ''Session 2'')) \<noteq> []"
    by (simp add: truthy_def toString_def trim_def isWhiteSpace_def)
  show ?thesis
    using h C10_no_session_branch_unreachable [of "Text ''Session 2''" noCollation
        "[[Text ''firstname'', Text ''lastname'', Text ''F12 boulder ticket''],
          [Text ''Cy'', Text ''Oz'', Text '' ''],
          [Text ''Al'', Text ''Ek'', Text ''Session 2'']]"]
    by blast
qed

section \<open>Properties of the scorecard layout engine\<close>

lemma lengthOf_plain:
  "key \<noteq> ''__proto__'' \<Longrightarrow> \<exists>n. lengthOf (lookupClimbs A key) = Some n \<and> 0 \<le> n"
  by (auto simp: lengthOf_def lookupClimbs_def objectPrototype_def split: option.splits)

lemma layoutLoop_Cons:
  "layoutLoop A e nC nA scoring p n (c # cs) st
   = layoutLoop A e nC nA scoring p n cs (layoutCard A e nC nA scoring p n c st)"
  by (simp add: layoutLoop_def)

lemma layoutLoop_Nil: "layoutLoop A e nC nA scoring p n [] st = st"
  by (simp add: layoutLoop_def)

lemma layoutCard_skip:
  assumes "lengthOf (lookupClimbs A (category c)) = Some 0"
  shows "layoutCard A e nC nA scoring p n c st
         = st\<lparr> layoutSkipped := layoutSkipped st @ [noClimbsSkip c] \<rparr>"
  using assms by (simp add: layoutCard_def Let_def noClimbsSkip_def)

lemma shownClimbs_length:
  assumes "lengthOf (lookupClimbs A (category c)) = Some len" and "0 \<le> len" and "0 \<le> nC"
  shows "int (length (shownClimbs A nC c)) = min len nC"
  using assms by (simp add: shownClimbs_def Let_def)

lemma layoutCard_card:
  assumes "lengthOf (lookupClimbs A (category c)) = Some len"
    and "0 < len" and "\<not> cursorLost st" and "0 \<le> nC"
  shows "layoutCard A e nC nA scoring p n c st
         = st\<lparr> currentRow := currentRow st
                  + specAdvance (truthy scoring) (successfulCards st)
                      (int (length (shownClimbs A nC c)))
                      (\<not> successfulCards st < n - int (length (layoutSkipped st)) - 1),
                successfulCards := successfulCards st + 1,
                cardOps := cardOps st @ cardCalls A e nC nA scoring p (currentRow st) c \<rparr>"
proof -
  have m: "int (length (shownClimbs A nC c)) = min len nC"
    using assms by (simp add: shownClimbs_length)
  show ?thesis
    unfolding m
    using assms
    by (simp add: layoutCard_def cardCalls_def Let_def specAdvance_def specSheetRows_def
        specRowUnits_def max_def)
qed


lemma layoutLoop_cards:
  assumes "successfulCards st + int (length (layoutSkipped st)) + int (length cs) = n"
    and "\<not> cursorLost st"
    and "list_all (\<lambda>c. category c \<noteq> ''__proto__'') cs"
    and "0 \<le> nC"
  shows "cardOps (layoutLoop A e nC nA scoring p n cs st)
         = cardOps st @ concat (map2 (cardCalls A e nC nA scoring p)
             (specCardStarts (truthy scoring) (currentRow st) (successfulCards st)
                (map (\<lambda>c. int (length (shownClimbs A nC c))) (filter (getsCard A) cs)))
             (filter (getsCard A) cs))
       \<and> layoutSkipped (layoutLoop A e nC nA scoring p n cs st)
         = layoutSkipped st @ map noClimbsSkip (filter (\<lambda>c. \<not> getsCard A c) cs)
       \<and> successfulCards (layoutLoop A e nC nA scoring p n cs st)
         = successfulCards st + int (length (filter (getsCard A) cs))"
  using assms(1,2,3)
proof (induction cs arbitrary: st)
  case Nil
  then show ?case by (simp add: layoutLoop_Nil)
next
  case (Cons c cs)
  from Cons.prems(3) have plain: "category c \<noteq> ''__proto__''"
    and rest: "list_all (\<lambda>c. category c \<noteq> ''__proto__'') cs"
    by simp_all
  from plain obtain len where len: "lengthOf (lookupClimbs A (category c)) = Some len" "0 \<le> len"
    using lengthOf_plain by blast
  let ?loop = "layoutLoop A e nC nA scoring p n"
  show ?case
  proof (cases "len = 0")
    case True
    then have skip: "\<not> getsCard A c"
      using len by (simp add: getsCard_def)
    let ?st = "st\<lparr> layoutSkipped := layoutSkipped st @ [noClimbsSkip c] \<rparr>"
    have step: "layoutCard A e nC nA scoring p n c st = ?st"
      using len True by (simp add: layoutCard_skip)
    have inv: "successfulCards ?st + int (length (layoutSkipped ?st)) + int (length cs) = n"
      using Cons.prems(1) by simp
    have lost: "\<not> cursorLost ?st"
      using Cons.prems(2) by simp
    show ?thesis
      unfolding layoutLoop_Cons step
      using Cons.IH [OF inv lost rest] skip
      by simp
  next
    case False
    then have pos: "0 < len" using len by simp
    then have card: "getsCard A c"
      using len by (simp add: getsCard_def)
    let ?last = "\<not> successfulCards st < n - int (length (layoutSkipped st)) - 1"
    let ?m = "int (length (shownClimbs A nC c))"
    define laid where "laid = filter (getsCard A) cs"
    define ms where "ms = map (\<lambda>c. int (length (shownClimbs A nC c))) laid"
    define r' where "r' = currentRow st + specAdvance (truthy scoring) (successfulCards st) ?m ?last"
    define st' where "st' = st\<lparr> currentRow := r',
                    successfulCards := successfulCards st + 1,
                    cardOps := cardOps st @ cardCalls A e nC nA scoring p (currentRow st) c \<rparr>"
    have step: "layoutCard A e nC nA scoring p n c st = st'"
      unfolding st'_def r'_def
      using len(1) pos Cons.prems(2) assms(4) by (rule layoutCard_card)
    have sel: "currentRow st' = r'" "successfulCards st' = successfulCards st + 1"
      "cardOps st' = cardOps st @ cardCalls A e nC nA scoring p (currentRow st) c"
      "layoutSkipped st' = layoutSkipped st"
      by (simp_all add: st'_def)
    have inv: "successfulCards st' + int (length (layoutSkipped st')) + int (length cs) = n"
      using Cons.prems(1) by (simp add: sel)
    have lost: "\<not> cursorLost st'"
      using Cons.prems(2) by (simp add: st'_def)
    have last: "?last = (cs = [])"
      using Cons.prems(1) by (cases cs) auto
    have starts: "specCardStarts (truthy scoring) r' (successfulCards st + 1) ms
        = specCardStarts (truthy scoring)
            (currentRow st + specAdvance (truthy scoring) (successfulCards st) ?m (ms = []))
            (successfulCards st + 1) ms"
    proof (cases "ms = []")
      case True
      then show ?thesis by simp
    next
      case False
      then have "cs \<noteq> []" by (auto simp: ms_def laid_def)
      with False last show ?thesis by (simp add: r'_def)
    qed
    have fl: "filter (getsCard A) (c # cs) = c # laid"
      "filter (\<lambda>c. \<not> getsCard A c) (c # cs) = filter (\<lambda>c. \<not> getsCard A c) cs"
      using card by (simp_all add: laid_def)
    have ih: "cardOps (?loop cs st')
         = cardOps st' @ concat (map2 (cardCalls A e nC nA scoring p)
             (specCardStarts (truthy scoring) (currentRow st') (successfulCards st') ms) laid)"
      "layoutSkipped (?loop cs st')
         = layoutSkipped st' @ map noClimbsSkip (filter (\<lambda>c. \<not> getsCard A c) cs)"
      "successfulCards (?loop cs st') = successfulCards st' + int (length laid)"
      using Cons.IH [OF inv lost rest] unfolding laid_def ms_def by blast+
    have ms': "map (\<lambda>c. int (length (shownClimbs A nC c))) (c # laid) = ?m # ms"
      by (simp add: ms_def)
    show ?thesis
      unfolding layoutLoop_Cons step fl ih sel starts ms'
      by simp
  qed
qed

lemma table_F12: "parseClimbAssignments climbsData ''F12'' = Some [''101'', ''102'', ''103'']"
  by (simp add: parseClimbAssignments_def climbsData_def cellAt_def truthy_def falsy_def
      toString_def trim_def isWhiteSpace_def)

lemma table_other:
  "key \<noteq> ''F12'' \<Longrightarrow> parseClimbAssignments climbsData key = None"
  by (simp add: parseClimbAssignments_def climbsData_def cellAt_def truthy_def falsy_def
      toString_def trim_def isWhiteSpace_def)













lemma attemptMarkers_climbRow:
  "attemptMarkers r (climbRow p numAttempts r climbNumber)
   = map (\<lambda>attemptNum. (1 + attemptNum, Number attemptNum)) [1..numAttempts]"
proof -
  have markers: "list_all (\<lambda>a. 1 \<le> a) xs \<Longrightarrow>
      concat (map (\<lambda>x. if 0 < x then [(1 + x, Number x)] else []) xs)
      = map (\<lambda>attemptNum. (1 + attemptNum, Number attemptNum)) xs" for xs :: "int list"
    by (induction xs) auto
  have "list_all (\<lambda>a. 1 \<le> a) [1..numAttempts]"
    by (simp add: list_all_iff)
  then show ?thesis
    by (simp add: attemptMarkers_def climbRow_def comp_def attemptMarker_def markers)
qed














lemma layoutAll_cards:
  assumes "plainCategories A climbers" and "0 \<le> nC"
  shows "cardOps (layoutAll climbers A e nC nA scoring eventType)
         = concat (map2 (cardCalls A e nC nA scoring (climbPrefixOf eventType))
             (specCardStarts (truthy scoring) 1 0
                (map (\<lambda>c. int (length (shownClimbs A nC c))) (filter (getsCard A) climbers)))
             (filter (getsCard A) climbers))
       \<and> layoutSkipped (layoutAll climbers A e nC nA scoring eventType)
         = map noClimbsSkip (filter (\<lambda>c. \<not> getsCard A c) climbers)
       \<and> successfulCards (layoutAll climbers A e nC nA scoring eventType)
         = int (length (filter (getsCard A) climbers))"
proof -
  let ?st = "\<lparr> currentRow = 1, successfulCards = 0, layoutSkipped = [], cardOps = [],
               cursorLost = False \<rparr>"
  have inv: "successfulCards ?st + int (length (layoutSkipped ?st)) + int (length climbers)
             = int (length climbers)"
    by simp
  have lost: "\<not> cursorLost ?st" by simp
  have plain: "list_all (\<lambda>c. category c \<noteq> ''__proto__'') climbers"
    using assms(1) by (simp add: plainCategories_def)
  show ?thesis
    using layoutLoop_cards [OF inv lost plain assms(2), of A e nA scoring "climbPrefixOf eventType"]
    by (simp add: layoutAll_def)
qed


lemma createRedpointScorecards_skipped:
  "snd (createRedpointScorecards sh climbers A e nC nA scoring eventType)
   = layoutSkipped (layoutAll climbers A e nC nA scoring eventType)"
  by (simp add: createRedpointScorecards_def Let_def)



lemma engine_skip_list:
  assumes "plainCategories A climbers" and "0 \<le> nC"
  shows "snd (createRedpointScorecards sh climbers A e nC nA scoring eventType)
         = map noClimbsSkip (filter (\<lambda>c. \<not> getsCard A c) climbers)"
  using layoutAll_cards [OF assms, of e nA scoring eventType]
  by (simp add: createRedpointScorecards_skipped)


lemma examples_lookup:
  "lookupClimbs (parseClimbAssignments climbsData) (category ann) = Climbs [''101'', ''102'', ''103'']"
  "lookupClimbs (parseClimbAssignments climbsData) (category bea) = Climbs [''101'', ''102'', ''103'']"
  "lookupClimbs (parseClimbAssignments climbsData) (category cy) = Climbs []"
  "lookupClimbs (parseClimbAssignments climbsData) (category zed) = Inherited (InheritedFunction 1)"
  by (simp_all add: lookupClimbs_def table_F12 table_other ann_def bea_def cy_def zed_def
      objectPrototype_def)


text \<open>
  Claim C2 (the code departs from it). The attempt markers of a climb row are meant to be
  1 up to the configured attempt count and never more than 10, inside a card that is
  1 + 10 columns wide. The loop runs while \<^verbatim>\<open>attemptNum <= numAttempts\<close> and nothing caps
  it: with 12 attempts the row of the first climb of the first card (row 5) gets the
  markers 1 to 12, in columns 2 to 13, past the 11 columns of the card.
\<close>

theorem C2_twelve_attempts_overflow_card:
  "attemptMarkers 5
     (cardOps (layoutAll [ann] (parseClimbAssignments climbsData) (Text ''Cup'') 1 12 (Text [])
                 (Text ''Boulder'')))
   = [(2, Number 1), (3, Number 2), (4, Number 3), (5, Number 4), (6, Number 5), (7, Number 6),
      (8, Number 7), (9, Number 8), (10, Number 9), (11, Number 10), (12, Number 11),
      (13, Number 12)]
   \<and> CARD_WIDTH_COLS = 11"
  by (simp add: layoutAll_def layoutLoop_def layoutCard_def Let_def examples_lookup lengthOf_def
      itemText_def headerOps_def
      climbRow_def attemptMarkers_def attemptMarker_def CARD_WIDTH_COLS_def MAX_ATTEMPTS_def
      truthy_def upto_rec1 upt_rec)







text \<open>
  Claim C7 (the code departs from it). A climber whose category has no entry in the climb
  assignments is meant to be skipped with the reason ``No climbs assigned to category''
  and to take no row. The lookup \<^verbatim>\<open>climbAssignments[climber.category] || []\<close> is made on a
  plain object, so a category without an entry that is the name of an inherited function
  of one parameter or more finds that function, whose \<^verbatim>\<open>length\<close> is not 0: a climber of
  the category ``constructor'' is not skipped and gets a card with one climb row, which
  reads ``Boulder: undefined''. For every category without an entry that is not such a
  name the climber is skipped as the claim says (lemma \<open>engine_skip_list\<close>).
\<close>

theorem C7_inherited_name_gets_a_card:
  "parseClimbAssignments climbsData (category zed) = None
   \<and> snd (createRedpointScorecards newSheet [zed] (parseClimbAssignments climbsData)
            (Text ''Cup'') 2 3 (Text []) (Text ''Boulder'')) = []
   \<and> cardStarts (written (fst (createRedpointScorecards newSheet [zed]
        (parseClimbAssignments climbsData) (Text ''Cup'') 2 3 (Text []) (Text ''Boulder'')))) = [1]
   \<and> climbLabels ''Boulder'' (written (fst (createRedpointScorecards newSheet [zed]
        (parseClimbAssignments climbsData) (Text ''Cup'') 2 3 (Text []) (Text ''Boulder''))))
     = [(5, ''undefined'')]"
proof -
  have found: "lookupClimbs (parseClimbAssignments climbsData) ''constructor''
               = Inherited (InheritedFunction 1)"
    by (simp add: lookupClimbs_def table_other objectPrototype_def)
  show ?thesis
    by (simp add: createRedpointScorecards_def layoutAll_def layoutLoop_def layoutCard_def Let_def
        found lengthOf_def itemText_def headerOps_def climbRow_def newSheet_def
        zed_def table_other truthy_def CARD_WIDTH_COLS_def MAX_ATTEMPTS_def
        climbPrefixOf_def toString_def toLowerCase_def toLowerCase_char_def trim_def
        isWhiteSpace_def cardStarts_def cardStart_def climbLabels_def climbLabel_def upt_rec
        upto_rec1)
qed

section \<open>Properties of the orchestrator\<close>

lemma eventType_boulder: "trim (toLowerCase (toString (Text ''boulder''))) = ''boulder''"
  by (simp add: toString_def toLowerCase_def toLowerCase_char_def trim_def isWhiteSpace_def)

lemma generateScorecards_early_abort:
  assumes "summarySheet ss = None
           \<or> (\<exists>summary. summarySheet ss = Some summary \<and>
                 (falsy (B1 summary) \<or> B2 summary = 0 \<or> B3 summary = 0 \<or> falsy (B4 summary)
                  \<or> (trim (toLowerCase (toString (B4 summary))) \<noteq> ''boulder''
                      \<and> trim (toLowerCase (toString (B4 summary))) \<noteq> ''rope'')
                  \<or> climbsSheet ss = None))"
  shows "snd (generateScorecards localeCompare newRows newColumns ss) = []"
  using assms
  by (auto simp: generateScorecards_def Let_def split: option.splits)

text \<open>
  Claim C3 (the code departs from it). Every fatal condition is meant to abort the run
  before anything is written. That holds for a missing Summary sheet, a missing scalar,
  an event kind that is neither boulder nor rope and a missing Climbs sheet (lemma
  \<open>generateScorecards_early_abort\<close>). The Registration sheet is looked up only after the
  sheet Queue Cards has been deleted and inserted anew: when the Registration sheet is
  missing, and when it holds no valid climber, the run aborts with the cards of the
  earlier run gone and an empty sheet in their place.
\<close>

theorem C3_abort_after_queue_sheet_is_replaced:
  "generateScorecards noCollation 1000 26 bookWithoutRegistration
   = (''Error: Could not find \"Registration\" sheet. Please upload your CSV first.'',
      [DeleteSheet ''Queue Cards'', InsertSheet ''Queue Cards'',
       OnSheet ''Queue Cards'' (SetHiddenGridlines True)])
   \<and> generateScorecards noCollation 1000 26
       (bookWithoutRegistration\<lparr> registrationSheet := Some [[Text ''firstname'', Text ''lastname'']] \<rparr>)
   = (''No registered climbers found.'',
      [DeleteSheet ''Queue Cards'', InsertSheet ''Queue Cards'',
       OnSheet ''Queue Cards'' (SetHiddenGridlines True)])"
  by (simp add: generateScorecards_def bookWithoutRegistration_def truthy_def falsy_def
      eventType_boulder parseClimberData_def Let_def)

section \<open>Properties of the check-in roster builder\<close>

lemma map_of_push_existing:
  "map_of (map (\<lambda>(k, members). if k = s then (k, members @ [c]) else (k, members)) g) k'
   = (if k' = s then map_option (\<lambda>members. members @ [c]) (map_of g k') else map_of g k')"
  by (induction g) auto

lemma map_of_pushToGroup:
  "map_of (pushToGroup g c) k
   = (if k = session c
      then Some ((case map_of g k of None \<Rightarrow> [] | Some members \<Rightarrow> members) @ [c])
      else map_of g k)"
proof (cases "map_of g (session c)")
  case None
  then show ?thesis
    by (auto simp: pushToGroup_def map_add_def split: option.splits)
next
  case (Some members)
  then show ?thesis
    by (simp add: pushToGroup_def map_of_push_existing)
qed

lemma groupBySession_snoc:
  "groupBySession (cs @ [c]) = pushToGroup (groupBySession cs) c"
  by (simp add: groupBySession_def)

lemma groupBySession_lookup:
  "map_of (groupBySession cs) k
   = (if k \<in> session ` set cs then Some (filter (\<lambda>c. session c = k) cs) else None)"
proof (induction cs rule: rev_induct)
  case Nil
  then show ?case by (simp add: groupBySession_def)
next
  case (snoc c cs)
  show ?case
  proof (cases "k = session c")
    case False
    then show ?thesis
      using snoc by (auto simp: groupBySession_snoc map_of_pushToGroup)
  next
    case True
    show ?thesis
    proof (cases "k \<in> session ` set cs")
      case True
      with \<open>k = session c\<close> snoc show ?thesis
        by (simp add: groupBySession_snoc map_of_pushToGroup)
    next
      case False
      then have "filter (\<lambda>c. session c = k) cs = []"
        by (auto simp: filter_empty_conv)
      with False \<open>k = session c\<close> snoc show ?thesis
        by (simp add: groupBySession_snoc map_of_pushToGroup)
    qed
  qed
qed

lemma keys_pushToGroup:
  "map fst (pushToGroup g c)
   = (if map_of g (session c) = None then map fst g @ [session c] else map fst g)"
proof -
  have "map fst (map (\<lambda>(k, members). if k = s then (k, members @ [c]) else (k, members)) g)
        = map fst g" for s
    by (induction g) auto
  then show ?thesis by (simp add: pushToGroup_def)
qed

lemma groupBySession_distinct: "distinct (map fst (groupBySession cs))"
proof (induction cs rule: rev_induct)
  case Nil
  then show ?case by (simp add: groupBySession_def)
next
  case (snoc c cs)
  then show ?case
    by (auto simp: groupBySession_snoc keys_pushToGroup map_of_eq_None_iff)
qed

lemma groupBySession_keys: "set (map fst (groupBySession cs)) = session ` set cs"
proof -
  have "set (map fst (groupBySession cs)) = dom (map_of (groupBySession cs))"
    by (simp add: dom_map_of_conv_image_fst)
  also have "\<dots> = session ` set cs"
    by (auto simp: dom_def groupBySession_lookup)
  finally show ?thesis .
qed

lemma insertSorted_set: "set (insertSorted cmp x ys) = insert x (set ys)"
  by (induction ys) auto

lemma insertSorted_distinct:
  "distinct (insertSorted cmp x ys) = (x \<notin> set ys \<and> distinct ys)"
  by (induction ys) (auto simp: insertSorted_set)

lemma sortBy_set_distinct:
  "set (foldl (\<lambda>sorted x. insertSorted cmp x sorted) acc xs) = set acc \<union> set xs
   \<and> (distinct (foldl (\<lambda>sorted x. insertSorted cmp x sorted) acc xs) = distinct (acc @ xs))"
  by (induction xs arbitrary: acc) (auto simp: insertSorted_set insertSorted_distinct)

lemma objectKeys_set_distinct:
  "set (objectKeys props) = set (map fst props)
   \<and> (distinct (map fst props) \<longrightarrow> distinct (objectKeys props))"
  by (auto simp: objectKeys_def)

lemma roster_grouping_is_total:
  "distinct (sessionsOf climbers)
   \<and> set (sessionsOf climbers) = session ` set climbers
   \<and> (\<forall>s \<in> set (sessionsOf climbers).
        map_of (groupBySession climbers) s = Some (filter (\<lambda>c. session c = s) climbers))"
proof -
  have k: "set (objectKeys (groupBySession climbers)) = session ` set climbers"
    using objectKeys_set_distinct [of "groupBySession climbers"] groupBySession_keys [of climbers]
    by simp
  have d: "distinct (objectKeys (groupBySession climbers))"
    using objectKeys_set_distinct [of "groupBySession climbers"] groupBySession_distinct [of climbers]
    by simp
  have s: "set (sessionsOf climbers) = session ` set climbers"
    using sortBy_set_distinct [of compareSessions "[]" "objectKeys (groupBySession climbers)"] k
    by (simp add: sessionsOf_def sortBy_def)
  have "distinct (sessionsOf climbers)"
    using sortBy_set_distinct [of compareSessions "[]" "objectKeys (groupBySession climbers)"] d
    by (simp add: sessionsOf_def sortBy_def)
  then show ?thesis
    using s by (simp add: groupBySession_lookup)
qed

lemma insertSorted_sorted:
  assumes "sorted_wrt (\<lambda>a b. key a \<le> key b) ys"
    and "\<And>y. y \<in> set ys \<Longrightarrow> precedes cmp x y = (key x < key y)"
  shows "sorted_wrt (\<lambda>a b. (key a :: int) \<le> key b) (insertSorted cmp x ys)"
  using assms
proof (induction ys)
  case Nil
  then show ?case by simp
next
  case (Cons y ys)
  show ?case
  proof (cases "list_all (precedes cmp x) (y # ys)")
    case True
    then have "\<forall>z \<in> set (y # ys). key x \<le> key z"
      using Cons.prems(2) by (fastforce simp: list_all_iff)
    with True Cons.prems(1) show ?thesis by simp
  next
    case False
    then obtain z where z: "z \<in> set (y # ys)" "\<not> precedes cmp x z"
      by (auto simp: list_all_iff)
    then have "key z \<le> key x"
      using Cons.prems(2) [of z] by simp
    moreover have "key y \<le> key z"
      using z(1) Cons.prems(1) by auto
    ultimately have yx: "key y \<le> key x" by simp
    have "sorted_wrt (\<lambda>a b. key a \<le> key b) (insertSorted cmp x ys)"
      using Cons.IH Cons.prems by simp
    with False yx Cons.prems(1) show ?thesis
      by (auto simp: insertSorted_set)
  qed
qed

lemma sortBy_sorted:
  assumes "\<And>x y. x \<in> set xs \<Longrightarrow> y \<in> set xs \<Longrightarrow> precedes cmp x y = (key x < key y)"
  shows "sorted_wrt (\<lambda>a b. (key a :: int) \<le> key b) (sortBy cmp xs)"
proof -
  have "sorted_wrt (\<lambda>a b. key a \<le> key b) acc \<Longrightarrow> set acc \<union> set ys \<subseteq> set xs \<Longrightarrow>
        sorted_wrt (\<lambda>a b. key a \<le> key b) (foldl (\<lambda>sorted x. insertSorted cmp x sorted) acc ys)"
    for acc ys
  proof (induction ys arbitrary: acc)
    case Nil
    then show ?case by simp
  next
    case (Cons y ys)
    have "sorted_wrt (\<lambda>a b. key a \<le> key b) (insertSorted cmp y acc)"
      using Cons.prems assms by (intro insertSorted_sorted) auto
    moreover have "set (insertSorted cmp y acc) \<union> set ys \<subseteq> set xs"
      using Cons.prems(2) by (auto simp: insertSorted_set)
    ultimately show ?case
      using Cons.IH by simp
  qed
  from this [of "[]" xs] show ?thesis
    by (simp add: sortBy_def)
qed

lemma rosters_ascending_when_numeric:
  assumes "\<forall>c \<in> set climbers. parseInt (session c) \<noteq> None"
  shows "sorted_wrt (\<lambda>a b. orNumber (parseInt a) 0 \<le> orNumber (parseInt b) 0)
           (sessionsOf climbers)"
proof -
  have keys: "set (objectKeys (groupBySession climbers)) = session ` set climbers"
    using objectKeys_set_distinct [of "groupBySession climbers"] groupBySession_keys [of climbers]
    by simp
  have "precedes compareSessions x y = (orNumber (parseInt x) 0 < orNumber (parseInt y) 0)"
    if "x \<in> set (objectKeys (groupBySession climbers))"
      and "y \<in> set (objectKeys (groupBySession climbers))" for x y
  proof -
    from that keys assms obtain a b where "parseInt x = Some a" "parseInt y = Some b"
      by fastforce
    then show ?thesis
      by (auto simp: precedes_def compareSessions_def orNumber_def)
  qed
  then show ?thesis
    unfolding sessionsOf_def by (rule sortBy_sorted)
qed

lemma insertedSheets_simps:
  "insertedSheets [] = []"
  "insertedSheets (xs @ ys) = insertedSheets xs @ insertedSheets ys"
  "insertedSheets (InsertSheet n # xs) = n # insertedSheets xs"
  "insertedSheets (DeleteSheet n # xs) = insertedSheets xs"
  "insertedSheets (map (OnSheet n) ops) = []"
  by (simp_all add: insertedSheets_def comp_def)

lemma parsed_mixed:
  "validClimbers (parseClimberData noCollation mixedRegistration) =
     [\<lparr> firstname = Text ''Cy'', lastname = Text ''Noe'', name = ''Cy Noe'', bib = Number 9,
         category = ''F12'', session = ''x'' \<rparr>,
      \<lparr> firstname = Text ''Bea'', lastname = Text ''Moe'', name = ''Bea Moe'', bib = Number 8,
         category = ''F12'', session = ''03'' \<rparr>,
      \<lparr> firstname = Text ''Ann'', lastname = Text ''Lee'', name = ''Ann Lee'', bib = Number 7,
         category = ''F12'', session = ''5'' \<rparr>]"
  by (simp add: parseClimberData_def mixedRegistration_def processRow_def splitRow_def cellAt_def
      truthy_def falsy_def toString_def trim_def isWhiteSpace_def isTicketHeader_def endsWith_def
      ticketCategory_def sessionOf_def matchDigits_def isDigit_def
      sortBy_def precedes_def compareClimbers_def noCollation_def Let_def
      parseInt_def radixDigit_def fromDigits_def orNumber_def compareCategoriesRedpoint_def)

text \<open>
  Claim C9 (the code departs from it). Every valid climber is on exactly one roster, the
  one of the climber's session token (lemma \<open>roster_grouping_is_total\<close>), and the rosters
  are meant to be made in ascending order of the numeric session, as they are when every
  token parses to a number (lemma \<open>rosters_ascending_when_numeric\<close>). The comparator
  \<^verbatim>\<open>parseInt(a) - parseInt(b)\<close> is NaN as soon as one token has no digit, which the sort
  reads as 0. For the ticket cells 5, 03 and x the keys of the groups are read as 5, x,
  03 (an array index comes first), no key precedes its left neighbour, and the rosters
  are made for 5, then x, then 03: the session 5 before the session 3.
\<close>

theorem C9_rosters_out_of_numeric_order:
  "map session (validClimbers (parseClimberData noCollation mixedRegistration)) = [''x'', ''03'', ''5'']
   \<and> sessionsOf (validClimbers (parseClimberData noCollation mixedRegistration)) = [''5'', ''x'', ''03'']
   \<and> insertedSheets (snd (createCheckInLists noCollation [''Queue Cards'']
         (validClimbers (parseClimberData noCollation mixedRegistration))))
     = [''Session 5 Check-in List'', ''Session x Check-in List'', ''Session 03 Check-in List'']
   \<and> parseInt ''5'' = Some 5 \<and> parseInt ''03'' = Some 3 \<and> parseInt ''x'' = None"
proof -
  have order: "map session (validClimbers (parseClimberData noCollation mixedRegistration))
      = [''x'', ''03'', ''5'']"
    by (simp add: parsed_mixed)
  have keys: "sessionsOf (validClimbers (parseClimberData noCollation mixedRegistration))
      = [''5'', ''x'', ''03'']"
    by (simp add: parsed_mixed sessionsOf_def groupBySession_def pushToGroup_def objectKeys_def
        isArrayIndex_def isDigit_def decimalValue_def radixDigit_def fromDigits_def
        sortBy_def precedes_def compareSessions_def parseInt_def isWhiteSpace_def)
  have sheets: "insertedSheets (snd (createCheckInLists noCollation [''Queue Cards'']
         (validClimbers (parseClimberData noCollation mixedRegistration))))
     = [''Session 5 Check-in List'', ''Session x Check-in List'', ''Session 03 Check-in List'']"
    unfolding createCheckInLists_def keys
    by (simp add: createCheckInList_def Let_def insertedSheets_simps checkInSheetName_def)
  have nums: "parseInt ''5'' = Some 5 \<and> parseInt ''03'' = Some 3 \<and> parseInt ''x'' = None"
    by (simp add: parseInt_def isWhiteSpace_def radixDigit_def fromDigits_def)
  show ?thesis
    using order keys sheets nums by blast
qed

end
